theory Spec2Isabelle
  imports Main
begin

section \<open>Strings\<close>

text \<open>
  JavaScript strings are modelled as \<open>string\<close>. The helpers below are the few
  String.prototype operations the proxy uses, restricted to ASCII case mapping.
\<close>

definition backslash :: char where
  "backslash = CHR 0x5C"

definition toLowerChar :: "char \<Rightarrow> char" where
  "toLowerChar c =
     (case map_of (zip ''ABCDEFGHIJKLMNOPQRSTUVWXYZ'' ''abcdefghijklmnopqrstuvwxyz'') c of
        None \<Rightarrow> c
      | Some d \<Rightarrow> d)"

definition toLowerCase :: "string \<Rightarrow> string" where
  "toLowerCase s = map toLowerChar s"

text \<open>\<open>s.split(sep)\<close> for a one-character separator: never returns the empty array.\<close>

fun splitStr :: "char \<Rightarrow> string \<Rightarrow> string list" where
  "splitStr sep [] = [] # []"
| "splitStr sep (c # cs) =
     (if c = sep then [] # splitStr sep cs
      else (case splitStr sep cs of
              [] \<Rightarrow> [c] # []
            | w # ws \<Rightarrow> (c # w) # ws))"

text \<open>\<open>xs.join(sep)\<close>.\<close>

fun joinStr :: "string \<Rightarrow> string list \<Rightarrow> string" where
  "joinStr sep [] = []"
| "joinStr sep [x] = x"
| "joinStr sep (x # y # ys) = x @ sep @ joinStr sep (y # ys)"

text \<open>
  \<open>s.trim()\<close>: white space is removed at both ends (space, tab, line feed, vertical tab,
  form feed, carriage return).
\<close>

definition isSpace :: "char \<Rightarrow> bool" where
  "isSpace c = (c \<in> set [CHR '' '', CHR 0x09, CHR 0x0A, CHR 0x0B, CHR 0x0C, CHR 0x0D])"

definition trim :: "string \<Rightarrow> string" where
  "trim s = rev (dropWhile isSpace (rev (dropWhile isSpace s)))"

text \<open>\<open>s.substring(n)\<close> for a non-negative \<open>n\<close>: beyond the end it is the empty string.\<close>

definition substring :: "nat \<Rightarrow> string \<Rightarrow> string" where
  "substring n s = drop n s"

text \<open>\<open>s.replace(a, b)\<close> with a one-character string pattern: the first occurrence only.\<close>

fun replaceFirst :: "char \<Rightarrow> string \<Rightarrow> string \<Rightarrow> string" where
  "replaceFirst a b [] = []"
| "replaceFirst a b (c # cs) = (if c = a then b @ cs else c # replaceFirst a b cs)"

section \<open>Rule matcher (proxy module, \<open>createMatcher\<close>)\<close>

text \<open>
  \<open>JSON.stringify(x).slice(1, -1)\<close> on a string: the JSON string escapes, without the
  surrounding quotes. Quote and backslash get a backslash, the control characters below
  0x20 their short or \<open>\u00XX\<close> form; every other character is kept as it is.
\<close>

definition hexDigit :: "nat \<Rightarrow> char" where
  "hexDigit n = ''0123456789abcdef'' ! (n mod 16)"

definition jsonEscapeChar :: "char \<Rightarrow> string" where
  "jsonEscapeChar c =
     (if c = CHR 0x22 then [backslash, CHR 0x22]
      else if c = backslash then [backslash, backslash]
      else if c = CHR 0x08 then [backslash, CHR ''b'']
      else if c = CHR 0x0C then [backslash, CHR ''f'']
      else if c = CHR 0x0A then [backslash, CHR ''n'']
      else if c = CHR 0x0D then [backslash, CHR ''r'']
      else if c = CHR 0x09 then [backslash, CHR ''t'']
      else if (of_char c :: nat) < 32
        then [backslash, CHR ''u'', CHR ''0'', CHR ''0'',
              hexDigit ((of_char c :: nat) div 16), hexDigit (of_char c :: nat)]
      else [c])"

definition jsonStringifySlice :: "string \<Rightarrow> string" where
  "jsonStringifySlice x = concat (map jsonEscapeChar x)"

text \<open>\<open>url.replace(/^https?:\/\//i, ``)\<close>: one leading scheme, in any letter case.\<close>

definition stripScheme :: "string \<Rightarrow> string" where
  "stripScheme s =
     (if toLowerCase (take 7 s) = ''http://'' then drop 7 s
      else if toLowerCase (take 8 s) = ''https://'' then drop 8 s
      else s)"

text \<open>
  A rule path is a string or a RegExp object. A RegExp is kept by its source text; the
  function returns the source text of the matcher it builds.
\<close>

datatype pattern = PString string | PRegExp string

fun createMatcher :: "pattern \<Rightarrow> string" where
  "createMatcher (PRegExp r) = r"
| "createMatcher (PString url) =
     joinStr ''.*?'' (map jsonStringifySlice (splitStr (CHR ''*'') (stripScheme url)))"

subsection \<open>The matcher as the specification words it\<close>

text \<open>
  The specification asks for each literal segment to be regex-escaped: every character
  with a meaning in a regular expression gets a backslash, so that the segment matches
  itself only.
\<close>

definition regexMeta :: "char \<Rightarrow> bool" where
  "regexMeta c = (c \<in> set (backslash # ''^$.*+?()[]{}|''))"

definition regexEscape :: "string \<Rightarrow> string" where
  "regexEscape x = concat (map (\<lambda>c. if regexMeta c then [backslash, c] else [c]) x)"

definition createMatcher_spec :: "string \<Rightarrow> string" where
  "createMatcher_spec url =
     joinStr ''.*?'' (map regexEscape (splitStr (CHR ''*'') (stripScheme url)))"

section \<open>Data model (rules module)\<close>

text \<open>
  A WHATWG URL object, by the components the proxy reads. \<open>protocol\<close> ends with the
  colon (\<open>https:\<close>), \<open>host\<close> carries the port when there is one, \<open>search\<close> is empty
  or starts with the question mark.
\<close>

record URL =
  protocol :: string
  host :: string
  pathname :: string
  search :: string

text \<open>A readable stream is known by what it reads: \<open>fs.createReadStream(path)\<close>.\<close>

datatype stream = FileStream string

text \<open>
  The values a request hook may resolve to besides \<open>undefined\<close>, \<open>null\<close>, booleans, URL
  objects and instances of the class RuleResponse: strings, streams, Error objects and
  plain objects (an object literal, by its own properties).
\<close>

datatype prim = PNum int | PStr string

datatype jsval = VStr string | VStream stream | VErr string | VObj "(string \<times> prim) list"

record RuleResponse =
  statusCode :: "int option"
  statusMessage :: "string option"
  headersR :: "(string \<times> string) list option"
  body :: "jsval option"

text \<open>
  \<open>RResponse\<close> is a value for which \<open>instanceof RuleResponse\<close> holds; an object literal
  with the same properties is a \<open>VObj\<close>.
\<close>

datatype RuleResult =
    RUndefined
  | RNull
  | RBool bool
  | RURL URL
  | RResponse RuleResponse
  | RValue jsval

text \<open>
  http.IncomingMessage: the request line, the headers (lower-case names) and the state of
  the body stream, Node's \<open>readableFlowing\<close>: \<open>None\<close> before anyone asked for data,
  \<open>Some False\<close> after an explicit pause, \<open>Some True\<close> when flowing.
\<close>

record IncomingMessage =
  url :: string
  reqMethod :: string
  headers :: "string \<rightharpoonup> string"
  flowing :: "bool option"

text \<open>\<open>${req.headers.host}\<close> in a template literal: a missing header reads \<open>undefined\<close>.\<close>

definition hostOf :: "IncomingMessage \<Rightarrow> string" where
  "hostOf req = (case headers req ''host'' of None \<Rightarrow> ''undefined'' | Some h \<Rightarrow> h)"

text \<open>
  The argument bundle of a rule: nothing, a string (\<open>file\<close>, \<open>forward\<close>, and everything
  the command line passes), or the object \<open>{ttl, cacheByQuery}\<close> of the cache rule.
\<close>

datatype args = NoArgs | StrArg string | CacheArgs "int option" "bool option"

datatype exn = TypeError | SyntaxError | IOError | RangeError | HeadersSent

text \<open>
  What the platform provides and the repository does not define: the URL constructor
  (\<open>None\<close> when it throws on an invalid URL), the MD5 hex digest, \<open>path.resolve\<close> of two
  segments, and \<open>new RegExp(source).test(s)\<close> (\<open>None\<close> when the source does not compile).
\<close>

record platform =
  newURL :: "string \<Rightarrow> string option \<Rightarrow> URL option"
  md5 :: "string \<Rightarrow> string"
  resolve :: "string \<Rightarrow> string \<Rightarrow> string"
  regexpTest :: "string \<Rightarrow> string \<Rightarrow> bool option"

subsection \<open>File system and cache state\<close>

text \<open>
  The parsed content of a cache head file: JSON.stringify leaves out a property whose
  value is undefined, so every property may be missing after JSON.parse.
\<close>

record head =
  hStatusCode :: "int option"
  hStatusMessage :: "string option"
  hHeaders :: "(string \<times> string) list option"
  updateTime :: "int option"

text \<open>
  The file system is a flat map from absolute paths to nodes. \<open>Head h\<close> is a file whose
  text is a JSON object with the properties \<open>h\<close>; \<open>Data s\<close> is a file with any other
  content, on which JSON.parse throws.
\<close>

datatype node = Dir | Head head | Data string

record cacheFile =
  dir :: string
  headFile :: string
  bodyFile :: string
  exist :: bool

text \<open>\<open>requests\<close> is the static table \<open>CacheRule.requests\<close>, from seq to \<open>{file, ttl}\<close>.\<close>

record world =
  files :: "string \<rightharpoonup> node"
  requests :: "nat \<rightharpoonup> (cacheFile \<times> int option)"

definition existsSync :: "world \<Rightarrow> string \<Rightarrow> bool" where
  "existsSync w p = (files w p \<noteq> None)"

section \<open>Built-in rule handlers (rules module)\<close>

text \<open>
  \<open>file\<close>: a missing path gives the object literal \<open>{statusCode: 404}\<close>, an existing one a
  read stream. An argument that is not a string is either falsy or not a path that
  exists. \<open>fs.createReadStream\<close> does not throw for a string path, so the catch branch
  is never taken.
\<close>

fun file_rule :: "world \<Rightarrow> args \<Rightarrow> RuleResult" where
  "file_rule w (StrArg path) =
     (if path = [] then RValue (VObj [(''statusCode'', PNum 404)])
      else if existsSync w path then RValue (VStream (FileStream path))
      else RValue (VObj [(''statusCode'', PNum 404)]))"
| "file_rule w _ = RValue (VObj [(''statusCode'', PNum 404)])"

text \<open>
  \<open>forward\<close>: the request is changed in place, so the model returns it with the result.
  The number of characters dropped is the length of the template
  \<open>${uri.protocol}://${req.headers.host}\<close>, read before the Host header is replaced.
\<close>

fun forward :: "platform \<Rightarrow> IncomingMessage \<Rightarrow> args \<Rightarrow> exn + (RuleResult \<times> IncomingMessage)" where
  "forward P req (StrArg u) =
     (case newURL P u None of
        None \<Rightarrow> Inl TypeError
      | Some uri \<Rightarrow>
          Inr (RURL uri,
               req\<lparr>url := substring (length (protocol uri @ ''://'' @ hostOf req)) (trim u),
                   headers := (headers req)(''host'' \<mapsto> host uri)\<rparr>))"
| "forward P req _ = Inl TypeError"

section \<open>Cache rule (rules module, class CacheRule)\<close>

definition getCacheFile ::
  "platform \<Rightarrow> string \<Rightarrow> world \<Rightarrow> IncomingMessage \<Rightarrow> bool \<Rightarrow> exn + cacheFile" where
  "getCacheFile P cdir w req cacheByQuery =
     (case newURL P (url req) (Some (''http://'' @ hostOf req)) of
        None \<Rightarrow> Inl TypeError
      | Some u \<Rightarrow>
          (let d = resolve P cdir (replaceFirst (CHR '':'') ''/'' (host u @ pathname u));
               hash = (if cacheByQuery \<and> search u \<noteq> [] then md5 P (search u) else []);
               name = (if hash \<noteq> [] then joinStr ''.'' [reqMethod req, hash] else reqMethod req);
               base = (if name \<noteq> [] then name else ''1'');
               hf = resolve P d base @ ''.head'';
               bf = resolve P d base @ ''.body''
           in Inr \<lparr>dir = d, headFile = hf, bodyFile = bf, exist = existsSync w hf\<rparr>))"

text \<open>\<open>ttl == null || head.updateTime + ttl * 1000 >= Date.now()\<close>; a head without
  \<open>updateTime\<close> gives NaN, and every comparison with NaN is false.\<close>

definition isFresh :: "int option \<Rightarrow> head \<Rightarrow> int \<Rightarrow> bool" where
  "isFresh ttl h now =
     (case ttl of
        None \<Rightarrow> True
      | Some t \<Rightarrow> (case updateTime h of None \<Rightarrow> False | Some u \<Rightarrow> now \<le> u + t * 1000))"

text \<open>\<open>Object.assign(new RuleResponse(), head, {body: ...})\<close>.\<close>

definition fromHead :: "world \<Rightarrow> cacheFile \<Rightarrow> head \<Rightarrow> RuleResponse" where
  "fromHead w f h =
     \<lparr>statusCode = hStatusCode h, statusMessage = hStatusMessage h, headersR = hHeaders h,
      body = Some (if existsSync w (bodyFile f) then VStream (FileStream (bodyFile f))
                   else VStr [])\<rparr>"

definition record_request :: "world \<Rightarrow> nat \<Rightarrow> cacheFile \<Rightarrow> int option \<Rightarrow> world" where
  "record_request w seq f ttl = w\<lparr>requests := (requests w)(seq \<mapsto> (f, ttl))\<rparr>"

text \<open>
  The request hook. Destructuring \<open>{ttl, cacheByQuery = false}\<close> from a string gives two
  undefined properties, from \<open>undefined\<close> it throws. The hook returns \<open>undefined\<close> after
  recording the request.
\<close>

fun cacheArgs :: "args \<Rightarrow> exn + (int option \<times> bool)" where
  "cacheArgs NoArgs = Inl TypeError"
| "cacheArgs (StrArg s) = Inr (None, False)"
| "cacheArgs (CacheArgs ttl cbq) = Inr (ttl, (case cbq of None \<Rightarrow> False | Some b \<Rightarrow> b))"

definition CacheRule_onRequest ::
  "platform \<Rightarrow> string \<Rightarrow> int \<Rightarrow> world \<Rightarrow> nat \<Rightarrow> IncomingMessage \<Rightarrow> args
     \<Rightarrow> exn + (RuleResult \<times> world)" where
  "CacheRule_onRequest P cdir now w seq req a =
     (case cacheArgs a of
        Inl e \<Rightarrow> Inl e
      | Inr (ttl, cacheByQuery) \<Rightarrow>
          (case getCacheFile P cdir w req cacheByQuery of
             Inl e \<Rightarrow> Inl e
           | Inr f \<Rightarrow>
               if exist f then
                 (case files w (headFile f) of
                    None \<Rightarrow> Inl IOError
                  | Some Dir \<Rightarrow> Inl IOError
                  | Some (Data s) \<Rightarrow> Inl SyntaxError
                  | Some (Head h) \<Rightarrow>
                      if isFresh ttl h now then Inr (RResponse (fromHead w f h), w)
                      else Inr (RUndefined, record_request w seq f ttl))
               else Inr (RUndefined, record_request w seq f ttl)))"

text \<open>
  The response hook gets the upstream response: an http.IncomingMessage, which is a
  Readable (\<open>Incoming\<close>, with the bytes its body will deliver), or any other object with
  the same properties (\<open>Plain\<close>), or nothing.

  \<open>const { file } = CacheRule.requests[seq]\<close> destructures the table entry before the
  test \<open>if (!file) return\<close>: with no entry for \<open>seq\<close> the entry is \<open>undefined\<close> and the
  destructuring throws a TypeError. A recorded \<open>file\<close> is an object, never falsy.
\<close>

datatype response = Incoming RuleResponse string | Plain RuleResponse

fun responseHead :: "response option \<Rightarrow> int \<Rightarrow> head" where
  "responseHead None now =
     \<lparr>hStatusCode = None, hStatusMessage = None, hHeaders = None, updateTime = Some now\<rparr>"
| "responseHead (Some (Incoming r b)) now =
     \<lparr>hStatusCode = statusCode r, hStatusMessage = statusMessage r, hHeaders = headersR r,
      updateTime = Some now\<rparr>"
| "responseHead (Some (Plain r)) now =
     \<lparr>hStatusCode = statusCode r, hStatusMessage = statusMessage r, hHeaders = headersR r,
      updateTime = Some now\<rparr>"

definition mkdirSync :: "string \<Rightarrow> world \<Rightarrow> world" where
  "mkdirSync p w = w\<lparr>files := (files w)(p \<mapsto> Dir)\<rparr>"

definition writeFileSync :: "string \<Rightarrow> node \<Rightarrow> world \<Rightarrow> world" where
  "writeFileSync p n w = w\<lparr>files := (files w)(p \<mapsto> n)\<rparr>"

fun pipeToFile :: "response option \<Rightarrow> string \<Rightarrow> world \<Rightarrow> world" where
  "pipeToFile (Some (Incoming r b)) p w = writeFileSync p (Data b) w"
| "pipeToFile _ p w = w"

definition CacheRule_onResponse :: "int \<Rightarrow> world \<Rightarrow> nat \<Rightarrow> response option \<Rightarrow> exn + world" where
  "CacheRule_onResponse now w seq res =
     (case requests w seq of
        None \<Rightarrow> Inl TypeError
      | Some (f, ttl) \<Rightarrow>
          (let w1 = (if existsSync w (dir f) then w else mkdirSync (dir f) w);
               w2 = writeFileSync (headFile f) (Head (responseHead res now)) w1
           in Inr (pipeToFile res (bodyFile f) w2)))"

section \<open>Inspector (inspector module)\<close>

text \<open>
  The journal entry of one request. The response part starts as \<open>{headers: {}}\<close>.
\<close>

record IRes =
  resHeaders :: "(string \<times> string) list"
  resStatusCode :: "int option"
  resStatusMessage :: "string option"

record IEntry =
  entrySeq :: nat
  entryUrl :: string
  entryMethod :: string
  entryHeaders :: "string \<rightharpoonup> string"
  entryRes :: IRes
  entryRule :: "string option"

text \<open>
  The inspector with the timers it has set. \<open>timer\<close> is the handle kept in the field
  \<open>this.timer\<close>; \<open>timers\<close> are the timers that were set and not cleared, each with its
  handle and the time at which it fires and writes \<open>index.json\<close>. Times are in
  milliseconds, as \<open>Date.now()\<close> gives them.
\<close>

record Inspector =
  entries :: "nat \<rightharpoonup> IEntry"
  nextSaveTime :: int
  timer :: "nat option"
  timers :: "(nat \<times> int) list"
  nextHandle :: nat

text \<open>The field initialisers of the class: \<open>nextSaveTime = Date.now()\<close>, no timer.\<close>

definition newInspector :: "int \<Rightarrow> Inspector" where
  "newInspector now =
     \<lparr>entries = Map.empty, nextSaveTime = now, timer = None, timers = [], nextHandle = 0\<rparr>"

text \<open>
  \<open>setTimeout(f, delay)\<close>: Node runs the callback \<open>delay\<close> milliseconds later, and uses
  1 for a delay below 1 or above \<open>2^31 - 1\<close>. \<open>clearTimeout\<close> removes a timer that has not
  fired yet; one that fired before \<open>now\<close> has written the journal already and stays.
\<close>

definition setTimeout :: "int \<Rightarrow> int \<Rightarrow> Inspector \<Rightarrow> Inspector" where
  "setTimeout now delay i =
     (let after = (if 1 \<le> delay \<and> delay \<le> 2147483647 then delay else 1)
      in i\<lparr>timers := timers i @ [(nextHandle i, now + after)],
           timer := Some (nextHandle i),
           nextHandle := nextHandle i + 1\<rparr>)"

definition clearTimeout :: "int \<Rightarrow> nat \<Rightarrow> Inspector \<Rightarrow> Inspector" where
  "clearTimeout now h i =
     i\<lparr>timers := filter (\<lambda>p. if fst p = h then snd p < now else True) (timers i)\<rparr>"

definition saveEntries :: "int \<Rightarrow> Inspector \<Rightarrow> Inspector" where
  "saveEntries now i =
     (let timeLeft = nextSaveTime i - now;
          i1 = (if timeLeft < 0 then i\<lparr>nextSaveTime := 2000\<rparr> else i);
          i2 = (if timeLeft \<le> 2000 then i1\<lparr>nextSaveTime := nextSaveTime i1 + 2000\<rparr>
                else (case timer i1 of None \<Rightarrow> i1 | Some h \<Rightarrow> clearTimeout now h i1))
      in setTimeout now (nextSaveTime i2) i2)"

text \<open>The times at which \<open>index.json\<close> is written: one write for each timer that was set
  and not cleared.\<close>

definition flushes :: "Inspector \<Rightarrow> int list" where
  "flushes i = map snd (timers i)"

text \<open>A run of journal updates, each at its own time, on an inspector made at \<open>t0\<close>.\<close>

definition updates :: "int \<Rightarrow> int list \<Rightarrow> Inspector" where
  "updates t0 ts = fold saveEntries ts (newInspector t0)"

text \<open>
  Stream state. \<open>pause\<close> and \<open>resume\<close> set \<open>readableFlowing\<close>; adding a \<open>data\<close> listener
  starts the flow unless the stream was paused explicitly.
\<close>

definition pause :: "IncomingMessage \<Rightarrow> IncomingMessage" where
  "pause req = req\<lparr>flowing := Some False\<rparr>"

definition resume :: "IncomingMessage \<Rightarrow> IncomingMessage" where
  "resume req = req\<lparr>flowing := Some True\<rparr>"

definition onData :: "IncomingMessage \<Rightarrow> IncomingMessage" where
  "onData req = (if flowing req = Some False then req else req\<lparr>flowing := Some True\<rparr>)"

definition Inspector_onRequest ::
  "int \<Rightarrow> nat \<Rightarrow> IncomingMessage \<Rightarrow> string option \<Rightarrow> Inspector \<Rightarrow> Inspector \<times> IncomingMessage" where
  "Inspector_onRequest now sq req rule i =
     (let e = \<lparr>entrySeq = sq, entryUrl = url req, entryMethod = reqMethod req,
               entryHeaders = headers req,
               entryRes = \<lparr>resHeaders = [], resStatusCode = None, resStatusMessage = None\<rparr>,
               entryRule = rule\<rparr>
      in (saveEntries now (i\<lparr>entries := (entries i)(sq \<mapsto> e)\<rparr>), onData req))"

text \<open>
  \<open>onRespond\<close>: \<open>this.entries[seq].res = ...\<close> throws when there is no entry for \<open>seq\<close>.
  The copy of the body to \<open>{seq}.res\<close> is not part of the model.
\<close>

definition Inspector_onRespond ::
  "int \<Rightarrow> nat \<Rightarrow> IRes \<Rightarrow> Inspector \<Rightarrow> exn + Inspector" where
  "Inspector_onRespond now sq r i =
     (case entries i sq of
        None \<Rightarrow> Inl TypeError
      | Some e \<Rightarrow> Inr (saveEntries now (i\<lparr>entries := (entries i)(sq \<mapsto> e\<lparr>entryRes := r\<rparr>)\<rparr>)))"

section \<open>Dispatch engine (proxy module, class SimpleProxy)\<close>

datatype ErrorType = HTTP | HTTPS | CONNECT | FORWARD

text \<open>
  A request hook may change the request and the state of the cache, and resolves to a
  result or throws. Arguments: the time, the state, \<open>seq\<close>, \<open>req\<close>, \<open>args\<close>.
\<close>

type_synonym OnRequest =
  "int \<Rightarrow> world \<Rightarrow> nat \<Rightarrow> IncomingMessage \<Rightarrow> args \<Rightarrow> exn + (RuleResult \<times> IncomingMessage \<times> world)"

type_synonym OnResponse =
  "int \<Rightarrow> world \<Rightarrow> nat \<Rightarrow> response option \<Rightarrow> exn + world"

record Rule =
  name :: "string option"
  args :: args
  match :: "IncomingMessage \<Rightarrow> exn + bool"
  onRequest :: "OnRequest option"
  onResponse :: "OnResponse option"

record SimpleProxy =
  seq :: nat
  rules :: "Rule list"
  inspector :: "Inspector option"

text \<open>
  http.ServerResponse: the headers set with \<open>setHeader\<close> (by lower-case name; there is no
  table until the first header is set), the head given to \<open>writeHead\<close>, what the body was
  ended with or piped from, and the error the sink was destroyed with. Node holds the
  head back until the body is written: the client receives the head only when a body
  write follows and the sink is not destroyed.
\<close>

datatype written = Ended "string option" | Piped stream

record ServerResponse =
  outHeaders :: "(string \<rightharpoonup> string) option"
  sent :: "(int \<times> string \<times> (string \<rightharpoonup> string)) option"
  out :: "written option"
  destroyed :: "exn option"

definition headersOf :: "ServerResponse \<Rightarrow> (string \<rightharpoonup> string)" where
  "headersOf res = (case outHeaders res of None \<Rightarrow> Map.empty | Some m \<Rightarrow> m)"

text \<open>
  Node's checks on a head. A header name is a non-empty HTTP token; a header value and
  the reason phrase hold only the tab and the characters from 0x20 on, without 0x7F.
\<close>

definition isTokenChar :: "char \<Rightarrow> bool" where
  "isTokenChar c =
     (c \<in> set (''abcdefghijklmnopqrstuvwxyzABCDEFGHIJKLMNOPQRSTUVWXYZ0123456789'' @
                ''^_`-!#$%&*+.|~'' @ [CHR 0x27]))"

definition validHeaderName :: "string \<Rightarrow> bool" where
  "validHeaderName k = (if k = [] then False else list_all isTokenChar k)"

definition isHeaderChar :: "char \<Rightarrow> bool" where
  "isHeaderChar c =
     (if c = CHR 0x09 then True
      else if (of_char c :: nat) < 32 then False
      else if c = CHR 0x7F then False
      else True)"

definition validHeaderValue :: "string \<Rightarrow> bool" where
  "validHeaderValue v = list_all isHeaderChar v"

text \<open>
  \<open>res.setHeader(name, value)\<close> throws once the head is written, and a TypeError for a
  name or a value that fails the checks.
\<close>

definition setHeader :: "string \<Rightarrow> string \<Rightarrow> ServerResponse \<Rightarrow> exn + ServerResponse" where
  "setHeader k v res =
     (if sent res = None then
        (if validHeaderName k \<and> validHeaderValue v
         then Inr (res\<lparr>outHeaders := Some ((headersOf res)(toLowerCase k \<mapsto> v))\<rparr>)
         else Inl TypeError)
      else Inl HeadersSent)"

text \<open>
  \<open>res.writeHead(statusCode, reason, headers)\<close>. The status is taken as a 32-bit integer
  and must lie in 100..999, else a RangeError is thrown. When headers were set before,
  each given header with a non-empty name is set with \<open>setHeader\<close>, so it replaces a
  header of the same name set before, and the head carries the whole table; otherwise
  the head carries the given headers, each checked. The reason phrase is checked too.
  A call that throws writes no head.
\<close>

definition toInt32 :: "int \<Rightarrow> int" where
  "toInt32 n = (n + 2147483648) mod 4294967296 - 2147483648"

fun setHeaders :: "(string \<times> string) list \<Rightarrow> ServerResponse \<Rightarrow> exn + ServerResponse" where
  "setHeaders [] res = Inr res"
| "setHeaders (kv # hs) res =
     (if fst kv = [] then setHeaders hs res
      else (case setHeader (fst kv) (snd kv) res of
              Inl e \<Rightarrow> Inl e
            | Inr res1 \<Rightarrow> setHeaders hs res1))"

definition headerTable :: "(string \<times> string) list \<Rightarrow> (string \<rightharpoonup> string)" where
  "headerTable hs = map_of (rev (map (\<lambda>kv. (toLowerCase (fst kv), snd kv)) hs))"

definition validPair :: "string \<times> string \<Rightarrow> bool" where
  "validPair kv = (validHeaderName (fst kv) \<and> validHeaderValue (snd kv))"

definition writeHead ::
  "int \<Rightarrow> string \<Rightarrow> (string \<times> string) list \<Rightarrow> ServerResponse \<Rightarrow> exn + ServerResponse" where
  "writeHead code msg hs res =
     (if sent res = None then
        (if 100 \<le> toInt32 code \<and> toInt32 code \<le> 999 then
           (case outHeaders res of
              Some m \<Rightarrow>
                (case setHeaders hs res of
                   Inl e \<Rightarrow> Inl e
                 | Inr res1 \<Rightarrow>
                     if validHeaderValue msg
                     then Inr (res1\<lparr>sent := Some (toInt32 code, msg, headersOf res1)\<rparr>)
                     else Inl TypeError)
            | None \<Rightarrow>
                if validHeaderValue msg \<and> list_all validPair hs
                then Inr (res\<lparr>sent := Some (toInt32 code, msg, headerTable hs)\<rparr>)
                else Inl TypeError)
         else Inl RangeError)
      else Inl HeadersSent)"

text \<open>
  \<open>res.end(chunk)\<close>: the chunk must be a string (or nothing); any other value throws a
  TypeError before anything is written.
\<close>

fun endWith :: "jsval option \<Rightarrow> ServerResponse \<Rightarrow> exn + ServerResponse" where
  "endWith None res = Inr (res\<lparr>out := Some (Ended None)\<rparr>)"
| "endWith (Some (VStr s)) res = Inr (res\<lparr>out := Some (Ended (Some s))\<rparr>)"
| "endWith (Some v) res = Inl TypeError"

text \<open>What one call of \<open>forwardRequest\<close> leaves behind.\<close>

record outgoing =
  target :: URL
  outMethod :: string
  outHeaders' :: "string \<rightharpoonup> string"

record dispatch =
  proxy :: SimpleProxy
  wld :: world
  request :: IncomingMessage
  sink :: ServerResponse
  fetched :: "outgoing option"
  handlerCalled :: bool
  errors :: "(ErrorType \<times> exn) list"

text \<open>\<open>handleError\<close>: destroy the sink and report the error as FORWARD.\<close>

definition handleError :: "exn \<Rightarrow> dispatch \<Rightarrow> dispatch" where
  "handleError e d =
     d\<lparr>sink := (sink d)\<lparr>destroyed := Some e\<rparr>, errors := errors d @ [(FORWARD, e)]\<rparr>"

text \<open>\<open>this.inspector?.onRespond(seq, response)\<close> inside the emitter.\<close>

definition notifyRespond :: "int \<Rightarrow> nat \<Rightarrow> IRes \<Rightarrow> dispatch \<Rightarrow> exn + dispatch" where
  "notifyRespond now sq r d =
     (case inspector (proxy d) of
        None \<Rightarrow> Inr d
      | Some i \<Rightarrow>
          (case Inspector_onRespond now sq r i of
             Inl e \<Rightarrow> Inl e
           | Inr i' \<Rightarrow> Inr (d\<lparr>proxy := (proxy d)\<lparr>inspector := Some i'\<rparr>\<rparr>)))"

definition iresOf :: "RuleResponse \<Rightarrow> IRes" where
  "iresOf r =
     \<lparr>resHeaders = (case headersR r of None \<Rightarrow> [] | Some hs \<Rightarrow> hs),
      resStatusCode = statusCode r, resStatusMessage = statusMessage r\<rparr>"

definition iresOfError :: IRes where
  "iresOfError = \<lparr>resHeaders = [], resStatusCode = None, resStatusMessage = None\<rparr>"

text \<open>
  The emitter \<open>onResponse\<close> for a synthesized response. The try block writes the head,
  notifies the inspector, then pipes a stream body or ends with the body. Whatever
  throws in it, the catch block destroys the sink, reports the error and notifies the
  inspector with it; the effects the try block had before the throw stay. An error of
  that last notification leaves the emitter.
\<close>

fun writeBody :: "jsval option \<Rightarrow> dispatch \<Rightarrow> exn + dispatch" where
  "writeBody (Some (VStream st)) d = Inr (d\<lparr>sink := (sink d)\<lparr>out := Some (Piped st)\<rparr>\<rparr>)"
| "writeBody b d =
     (case endWith b (sink d) of
        Inl e \<Rightarrow> Inl e
      | Inr res \<Rightarrow> Inr (d\<lparr>sink := res\<rparr>))"

definition emitCatch :: "int \<Rightarrow> nat \<Rightarrow> exn \<Rightarrow> dispatch \<Rightarrow> exn + dispatch" where
  "emitCatch now sq e d = notifyRespond now sq iresOfError (handleError e d)"

definition SimpleProxy_onResponse :: "int \<Rightarrow> nat \<Rightarrow> RuleResponse \<Rightarrow> dispatch \<Rightarrow> exn + dispatch" where
  "SimpleProxy_onResponse now sq r d =
     (case writeHead (case statusCode r of None \<Rightarrow> 500 | Some c \<Rightarrow> c)
             (case statusMessage r of None \<Rightarrow> [] | Some m \<Rightarrow> m)
             (case headersR r of None \<Rightarrow> [] | Some hs \<Rightarrow> hs)
             (sink d) of
        Inl e \<Rightarrow> emitCatch now sq e d
      | Inr res1 \<Rightarrow>
          (case notifyRespond now sq (iresOf r) (d\<lparr>sink := res1\<rparr>) of
             Inl e \<Rightarrow> emitCatch now sq e (d\<lparr>sink := res1\<rparr>)
           | Inr d2 \<Rightarrow>
               (case writeBody (body r) d2 of
                  Inl e \<Rightarrow> emitCatch now sq e d2
                | Inr d3 \<Rightarrow> Inr d3)))"

text \<open>
  \<open>fetch\<close>: the upstream request is made for the URL object, with the method and the
  headers of the request as they are now; the request body is piped into it and resumed.
  The upstream response arrives later and is not part of this step.
\<close>

definition fetch :: "URL \<Rightarrow> dispatch \<Rightarrow> dispatch" where
  "fetch u d =
     d\<lparr>fetched := Some \<lparr>target = u, outMethod = reqMethod (request d),
                         outHeaders' = headers (request d)\<rparr>,
       request := resume (request d)\<rparr>"

text \<open>
  The continuation of the request hook in \<open>forwardRequest\<close>: \<open>url\<close> is the URL built from
  the request before the hook ran.
\<close>

fun isError :: "jsval \<Rightarrow> bool" where
  "isError (VErr m) = True"
| "isError v = False"

definition synth :: "int \<Rightarrow> nat \<Rightarrow> RuleResponse \<Rightarrow> bool \<Rightarrow> dispatch \<Rightarrow> exn + dispatch" where
  "synth now sq response0 err d =
     (let d1 = d\<lparr>request := resume (request d)\<rparr>;
          response1 = (if statusCode response0 = None then response0\<lparr>statusCode := Some 200\<rparr>
                       else response0);
          response2 = (if err then response1\<lparr>statusCode := Some 500\<rparr> else response1)
      in (case setHeader ''Access-Control-Allow-Origin'' ''*'' (sink d1) of
            Inl e \<Rightarrow> Inl e
          | Inr res1 \<Rightarrow> SimpleProxy_onResponse now sq response2 (d1\<lparr>sink := res1\<rparr>)))"

fun coerce :: "int \<Rightarrow> nat \<Rightarrow> URL \<Rightarrow> RuleResult \<Rightarrow> dispatch \<Rightarrow> exn + dispatch" where
  "coerce now sq u (RBool False) d = Inr d"
| "coerce now sq u RUndefined d = Inr (fetch u d)"
| "coerce now sq u RNull d = Inr (fetch u d)"
| "coerce now sq u (RBool True) d = Inr (fetch u d)"
| "coerce now sq u (RURL t) d = Inr (fetch t d)"
| "coerce now sq u (RResponse r) d = synth now sq r False d"
| "coerce now sq u (RValue v) d =
     synth now sq \<lparr>statusCode = Some 200, statusMessage = None, headersR = None, body = Some v\<rparr>
       (isError v) d"

text \<open>\<open>this.rules.find((x) => x.match!(req))\<close>: the first rule that matches.\<close>

fun findRule :: "Rule list \<Rightarrow> IncomingMessage \<Rightarrow> exn + Rule option" where
  "findRule [] req = Inr None"
| "findRule (x # xs) req =
     (case match x req of
        Inl e \<Rightarrow> Inl e
      | Inr True \<Rightarrow> Inr (Some x)
      | Inr False \<Rightarrow> findRule xs req)"

text \<open>
  \<open>rule?.handler?.onRequest?.({seq, req, args})\<close>: without a rule or a request hook the
  value is \<open>undefined\<close>. The flag \<open>handlerCalled\<close> records that the hook ran.
\<close>

definition callOnRequest :: "int \<Rightarrow> nat \<Rightarrow> Rule option \<Rightarrow> dispatch \<Rightarrow> exn + (RuleResult \<times> dispatch)" where
  "callOnRequest now sq rule d =
     (case rule of
        None \<Rightarrow> Inr (RUndefined, d)
      | Some r \<Rightarrow>
          (case onRequest r of
             None \<Rightarrow> Inr (RUndefined, d)
           | Some h \<Rightarrow>
               (case h now (wld d) sq (request d) (args r) of
                  Inl e \<Rightarrow> Inl e
                | Inr (rt, req', w') \<Rightarrow>
                    Inr (rt, d\<lparr>request := req', wld := w', handlerCalled := True\<rparr>))))"

text \<open>
  The answer to a preflight request that a rule matched. \<open>writeHead\<close> is called without
  a reason phrase, so Node sends the standard one for 204. The call is not inside a try
  block: what it throws leaves \<open>forwardRequest\<close>.
\<close>

definition preflight :: "dispatch \<Rightarrow> exn + dispatch" where
  "preflight d =
     (case writeHead 204 ''No Content''
             [(''Access-Control-Allow-Headers'', ''*''),
              (''Access-Control-Allow-Methods'', ''*''),
              (''Access-Control-Allow-Origin'', ''*'')] (sink d) of
        Inl e \<Rightarrow> Inl e
      | Inr res1 \<Rightarrow>
          Inr (d\<lparr>request := resume (request d), sink := res1\<lparr>out := Some (Ended None)\<rparr>\<rparr>))"

text \<open>
  The state after the synchronous start of \<open>forwardRequest\<close>: the counter is advanced,
  the request is paused, and the inspector, when there is one, has the request.
\<close>

definition begin_dispatch ::
  "int \<Rightarrow> SimpleProxy \<Rightarrow> world \<Rightarrow> IncomingMessage \<Rightarrow> ServerResponse \<Rightarrow> Rule option \<Rightarrow> dispatch" where
  "begin_dispatch now px w req res rule =
     (let sq = seq px + 1;
          req1 = pause req;
          rname = (case rule of None \<Rightarrow> None | Some r \<Rightarrow> name r);
          ir = (case inspector px of
                  None \<Rightarrow> (None, req1)
                | Some i \<Rightarrow> (case Inspector_onRequest now sq req1 rname i of
                              (i', req2) \<Rightarrow> (Some i', req2)))
      in \<lparr>proxy = px\<lparr>seq := sq, inspector := fst ir\<rparr>, wld = w, request = snd ir, sink = res,
          fetched = None, handlerCalled = False, errors = []\<rparr>)"

definition forwardRequest ::
  "platform \<Rightarrow> int \<Rightarrow> SimpleProxy \<Rightarrow> world \<Rightarrow> IncomingMessage \<Rightarrow> ServerResponse \<Rightarrow> string
     \<Rightarrow> exn + dispatch" where
  "forwardRequest P now px w req res proto =
     (case newURL P (url req) (Some (proto @ ''://'' @ hostOf req)) of
        None \<Rightarrow> Inl TypeError
      | Some u \<Rightarrow>
          (case findRule (rules px) req of
             Inl e \<Rightarrow> Inl e
           | Inr rule \<Rightarrow>
               (let d = begin_dispatch now px w req res rule
                in if rule \<noteq> None \<and> reqMethod req = ''OPTIONS'' then preflight d
                   else (case callOnRequest now (seq (proxy d)) rule d of
                           Inl e \<Rightarrow> Inl e
                         | Inr (rt, d') \<Rightarrow> coerce now (seq (proxy d)) u rt d'))))"

subsection \<open>Registering rules\<close>

definition addRule ::
  "platform \<Rightarrow> pattern \<Rightarrow> args \<Rightarrow> string option \<Rightarrow> OnRequest option \<Rightarrow> OnResponse option
     \<Rightarrow> SimpleProxy \<Rightarrow> SimpleProxy" where
  "addRule P path a n onReq onRes px =
     px\<lparr>rules := rules px @
        [\<lparr>name = n, args = a,
          match = (\<lambda>req. case regexpTest P (createMatcher path) (hostOf req @ url req) of
                           None \<Rightarrow> Inl SyntaxError
                         | Some b \<Rightarrow> Inr b),
          onRequest = onReq, onResponse = onRes\<rparr>]\<rparr>"

definition file_onRequest :: OnRequest where
  "file_onRequest now w sq req a = Inr (file_rule w a, req, w)"

definition forward_onRequest :: "platform \<Rightarrow> OnRequest" where
  "forward_onRequest P now w sq req a =
     (case forward P req a of
        Inl e \<Rightarrow> Inl e
      | Inr (rt, req') \<Rightarrow> Inr (rt, req', w))"

definition cache_onRequest :: "platform \<Rightarrow> string \<Rightarrow> OnRequest" where
  "cache_onRequest P cdir now w sq req a =
     (case CacheRule_onRequest P cdir now w sq req a of
        Inl e \<Rightarrow> Inl e
      | Inr (rt, w') \<Rightarrow> Inr (rt, req, w'))"

definition proxy_file :: "platform \<Rightarrow> pattern \<Rightarrow> string \<Rightarrow> SimpleProxy \<Rightarrow> SimpleProxy" where
  "proxy_file P path filePath = addRule P path (StrArg filePath) (Some ''file'') (Some file_onRequest) None"

definition proxy_forward :: "platform \<Rightarrow> pattern \<Rightarrow> string \<Rightarrow> SimpleProxy \<Rightarrow> SimpleProxy" where
  "proxy_forward P path u = addRule P path (StrArg u) (Some ''forward'') (Some (forward_onRequest P)) None"

definition proxy_cache ::
  "platform \<Rightarrow> string \<Rightarrow> pattern \<Rightarrow> int option \<Rightarrow> bool option \<Rightarrow> SimpleProxy \<Rightarrow> SimpleProxy" where
  "proxy_cache P cdir path ttl cacheByQuery =
     addRule P path (CacheArgs ttl cacheByQuery) (Some ''cache'')
       (Some (cache_onRequest P cdir)) (Some CacheRule_onResponse)"

definition addCustomRule :: "Rule \<Rightarrow> SimpleProxy \<Rightarrow> SimpleProxy" where
  "addCustomRule rule px = px\<lparr>rules := rules px @ [rule]\<rparr>"

text \<open>The constructor: no rules, the counter at 0, the inspector of the options.\<close>

definition newSimpleProxy :: "Inspector option \<Rightarrow> SimpleProxy" where
  "newSimpleProxy i = \<lparr>seq = 0, rules = [], inspector = i\<rparr>"

text \<open>A response sink on which nothing has been set or written.\<close>

definition newServerResponse :: ServerResponse where
  "newServerResponse = \<lparr>outHeaders = None, sent = None, out = None, destroyed = None\<rparr>"

subsection \<open>What the client is sent\<close>

text \<open>
  The status code and a header of the head that \<open>writeHead\<close> accepted, if it accepted one.
  The client receives this head when the body is written after it (\<open>out\<close> is set) and
  the sink is not destroyed.
\<close>

definition sentStatus :: "dispatch \<Rightarrow> int option" where
  "sentStatus d = map_option fst (sent (sink d))"

definition sentHeader :: "string \<Rightarrow> dispatch \<Rightarrow> string option" where
  "sentHeader k d =
     (case sent (sink d) of None \<Rightarrow> None | Some t \<Rightarrow> snd (snd t) (toLowerCase k))"

text \<open>
  The value a response's own \<open>headers\<close> object gives for a header name, whatever the
  letter case of its keys; of two keys that differ in case only, the later one counts.
\<close>

definition ownHeader :: "string \<Rightarrow> (string \<times> string) list option \<Rightarrow> string option" where
  "ownHeader k hs =
     (case hs of
        None \<Rightarrow> None
      | Some l \<Rightarrow> map_of (rev (map (\<lambda>kv. (toLowerCase (fst kv), snd kv)) l)) (toLowerCase k))"

text \<open>
  The results that the emitter can write out: a string, a stream, or a RuleResponse with
  a status in 100..999 (or none), a reason phrase and headers that pass Node's checks
  (a header with an empty name is skipped), and a body that is a string, a stream or
  absent. An Error and a plain object are not among them.
\<close>

fun writable :: "jsval option \<Rightarrow> bool" where
  "writable None = True"
| "writable (Some (VStr s)) = True"
| "writable (Some (VStream st)) = True"
| "writable (Some v) = False"

fun bodyWritten :: "jsval option \<Rightarrow> written option" where
  "bodyWritten None = Some (Ended None)"
| "bodyWritten (Some (VStr s)) = Some (Ended (Some s))"
| "bodyWritten (Some (VStream st)) = Some (Piped st)"
| "bodyWritten (Some v) = None"

definition okHeader :: "string \<times> string \<Rightarrow> bool" where
  "okHeader kv = (if fst kv = [] then True else validPair kv)"

definition validHead :: "RuleResponse \<Rightarrow> bool" where
  "validHead r =
     ((case statusCode r of None \<Rightarrow> True | Some c \<Rightarrow> 100 \<le> c \<and> c \<le> 999) \<and>
      validHeaderValue (case statusMessage r of None \<Rightarrow> [] | Some m \<Rightarrow> m) \<and>
      list_all okHeader (case headersR r of None \<Rightarrow> [] | Some hs \<Rightarrow> hs))"

fun emittable :: "RuleResult \<Rightarrow> bool" where
  "emittable (RResponse r) = (validHead r \<and> writable (body r))"
| "emittable (RValue v) = writable (Some v)"
| "emittable rt = True"

text \<open>The inspector, when there is one, has a journal entry for \<open>sq\<close>.\<close>

definition hasEntry :: "nat \<Rightarrow> dispatch \<Rightarrow> bool" where
  "hasEntry sq d =
     (case inspector (proxy d) of None \<Rightarrow> True | Some i \<Rightarrow> entries i sq \<noteq> None)"

section \<open>Example set-up\<close>

text \<open>
  A platform defined on the inputs of the examples only: the URL constructor on six
  URLs, the MD5 digests of two query strings, \<open>path.resolve\<close> of an absolute directory
  and a relative path without dots, and the outcome of six regular-expression tests.
  The host of every example request is \<open>x\<close>; the request target is the absolute URL,
  as a proxy receives it.
\<close>

definition demo_newURL :: "string \<Rightarrow> string option \<Rightarrow> URL option" where
  "demo_newURL s b =
     (if s = ''http://x/a.js'' \<and> b = Some ''http://x''
        then Some \<lparr>protocol = ''http:'', host = ''x'', pathname = ''/a.js'', search = []\<rparr>
      else if s = ''http://x/img?v=1'' \<and> b = Some ''http://x''
        then Some \<lparr>protocol = ''http:'', host = ''x'', pathname = ''/img'', search = ''?v=1''\<rparr>
      else if s = ''http://x/img?v=2'' \<and> b = Some ''http://x''
        then Some \<lparr>protocol = ''http:'', host = ''x'', pathname = ''/img'', search = ''?v=2''\<rparr>
      else if s = ''http://x/other'' \<and> b = Some ''http://x''
        then Some \<lparr>protocol = ''http:'', host = ''x'', pathname = ''/other'', search = []\<rparr>
      else if s = ''https://x/v2/'' \<and> b = None
        then Some \<lparr>protocol = ''https:'', host = ''x'', pathname = ''/v2/'', search = []\<rparr>
      else if s = ''https://upstream/v2/'' \<and> b = None
        then Some \<lparr>protocol = ''https:'', host = ''upstream'', pathname = ''/v2/'', search = []\<rparr>
      else None)"

definition demo_md5 :: "string \<Rightarrow> string" where
  "demo_md5 s =
     (if s = ''?v=1'' then ''4c03fb5467a8c671a449482848d26161''
      else if s = ''?v=2'' then ''fb2e0335e063a5449c9d5fa2405aaf56''
      else [])"

definition demo_test :: "string \<Rightarrow> string \<Rightarrow> bool option" where
  "demo_test src s =
     (if src = ''/a.js'' \<and> s = ''xhttp://x/a.js'' then Some True
      else if src = ''/img'' \<and> s = ''xhttp://x/img?v=1'' then Some True
      else if src = ''/img'' \<and> s = ''xhttp://x/a.js'' then Some False
      else if src = ''/a.js'' \<and> s = ''xhttp://x/img?v=1'' then Some False
      else if src = ''/img'' \<and> s = ''xhttp://x/other'' then Some False
      else if src = ''/a.js'' \<and> s = ''xhttp://x/other'' then Some False
      else None)"

definition demo_platform :: platform where
  "demo_platform =
     \<lparr>newURL = demo_newURL, md5 = demo_md5, resolve = (\<lambda>a b. a @ ''/'' @ b),
      regexpTest = demo_test\<rparr>"

definition demo_request :: "string \<Rightarrow> string \<Rightarrow> IncomingMessage" where
  "demo_request m u = \<lparr>url = u, reqMethod = m, headers = [''host'' \<mapsto> ''x''], flowing = None\<rparr>"

text \<open>
  A file system with one static file and one cache entry, stored at
  1700000000000 ms from an upstream response that named its own allowed origin.
\<close>

definition demo_head :: head where
  "demo_head =
     \<lparr>hStatusCode = Some 200, hStatusMessage = Some ''OK'',
      hHeaders = Some [(''access-control-allow-origin'', ''https://a.example'')],
      updateTime = Some 1700000000000\<rparr>"

definition demo_world :: world where
  "demo_world =
     \<lparr>files = [''/srv/a.js'' \<mapsto> Data ''let a'',
               ''/c/x/img/GET.head'' \<mapsto> Head demo_head,
               ''/c/x/img/GET.body'' \<mapsto> Data ''png''],
      requests = Map.empty\<rparr>"

text \<open>\<open>proxy.file("/a.js", "/srv/a.js")\<close> on a new proxy without inspector.\<close>

definition demo_file_proxy :: SimpleProxy where
  "demo_file_proxy =
     proxy_file demo_platform (PString ''/a.js'') ''/srv/a.js'' (newSimpleProxy None)"

text \<open>
  \<open>proxy.cache("/img", 60)\<close> and then \<open>proxy.file("/a.js", "/srv/a.js")\<close> on a new proxy
  without inspector: two rules, in this order.
\<close>

definition demo_two_rule_proxy :: SimpleProxy where
  "demo_two_rule_proxy =
     proxy_file demo_platform (PString ''/a.js'') ''/srv/a.js''
       (proxy_cache demo_platform ''/c'' (PString ''/img'') (Some 60) None (newSimpleProxy None))"

text \<open>
  A custom rule that matches every request and whose request hook answers \<open>false\<close>, on
  a proxy with an inspector.
\<close>

definition demo_suppress :: OnRequest where
  "demo_suppress now w sq req a = Inr (RBool False, req, w)"

definition demo_custom_proxy :: SimpleProxy where
  "demo_custom_proxy =
     addCustomRule \<lparr>name = Some ''mine'', args = NoArgs, match = (\<lambda>req. Inr True),
                    onRequest = Some demo_suppress, onResponse = None\<rparr>
       (newSimpleProxy (Some (newInspector 1699999999000)))"

section \<open>Auxiliary facts\<close>

lemmas demo_defs = newSimpleProxy_def newServerResponse_def demo_newURL_def demo_md5_def
  demo_test_def demo_platform_def demo_request_def demo_head_def demo_world_def

lemmas engine_defs = existsSync_def proxy_file_def proxy_cache_def proxy_forward_def addRule_def
  forwardRequest_def hostOf_def stripScheme_def toLowerCase_def toLowerChar_def
  jsonStringifySlice_def jsonEscapeChar_def backslash_def begin_dispatch_def pause_def
  callOnRequest_def file_onRequest_def cache_onRequest_def forward_onRequest_def synth_def
  SimpleProxy_onResponse_def emitCatch_def notifyRespond_def handleError_def writeHead_def
  setHeader_def headersOf_def headerTable_def validPair_def validHeaderName_def
  validHeaderValue_def isTokenChar_def isHeaderChar_def toInt32_def resume_def sentStatus_def
  sentHeader_def Let_def CacheRule_onRequest_def getCacheFile_def isFresh_def fromHead_def
  record_request_def fetch_def substring_def trim_def isSpace_def preflight_def

lemma toInt32_status: "100 \<le> c \<Longrightarrow> c \<le> 999 \<Longrightarrow> toInt32 c = c"
  by (simp add: toInt32_def)

lemma toLowerCase_Nil: "(toLowerCase k = []) = (k = [])"
  by (simp add: toLowerCase_def)

lemma setHeaders_ok:
  assumes "sent res = None" and "list_all okHeader hs"
  shows "\<exists>res'. setHeaders hs res = Inr res' \<and> sent res' = None \<and> out res' = out res \<and>
           destroyed res' = destroyed res \<and>
           (\<forall>k. k \<noteq> [] \<longrightarrow>
              headersOf res' k = (case headerTable hs k of None \<Rightarrow> headersOf res k | Some v \<Rightarrow> Some v))"
  using assms
proof (induction hs arbitrary: res)
  case Nil
  then show ?case by (simp add: headerTable_def)
next
  case (Cons kv hs)
  show ?case
  proof (cases "fst kv = []")
    case True
    from Cons.IH[of res] Cons.prems
    obtain res' where r: "setHeaders hs res = Inr res'" "sent res' = None" "out res' = out res"
      "destroyed res' = destroyed res"
      "\<forall>k. k \<noteq> [] \<longrightarrow>
          headersOf res' k = (case headerTable hs k of None \<Rightarrow> headersOf res k | Some v \<Rightarrow> Some v)"
      by auto
    have "\<And>k. k \<noteq> [] \<Longrightarrow> headerTable (kv # hs) k = headerTable hs k"
      using True by (auto simp: headerTable_def map_add_def toLowerCase_Nil split: option.splits)
    then show ?thesis using r True by simp
  next
    case False
    let ?res1 = "res\<lparr>outHeaders := Some ((headersOf res)(toLowerCase (fst kv) \<mapsto> snd kv))\<rparr>"
    have s1: "setHeader (fst kv) (snd kv) res = Inr ?res1"
      using Cons.prems False by (simp add: setHeader_def okHeader_def validPair_def)
    have "sent ?res1 = None" using Cons.prems by simp
    from Cons.IH[OF this] Cons.prems
    obtain res' where r: "setHeaders hs ?res1 = Inr res'" "sent res' = None" "out res' = out ?res1"
      "destroyed res' = destroyed ?res1"
      "\<forall>k. k \<noteq> [] \<longrightarrow>
          headersOf res' k = (case headerTable hs k of None \<Rightarrow> headersOf ?res1 k | Some v \<Rightarrow> Some v)"
      by auto
    have h1: "\<And>k. headersOf ?res1 k = (if k = toLowerCase (fst kv) then Some (snd kv) else headersOf res k)"
      by (simp add: headersOf_def)
    have t: "\<And>k. headerTable (kv # hs) k =
               (case headerTable hs k of
                  None \<Rightarrow> (if k = toLowerCase (fst kv) then Some (snd kv) else None)
                | Some v \<Rightarrow> Some v)"
      by (auto simp: headerTable_def map_add_def split: option.splits)
    show ?thesis using r s1 False
      by (auto simp: h1 t split: option.splits)
  qed
qed

lemma writeHead_ok:
  assumes "sent res = None" and "outHeaders res = Some m"
      and "100 \<le> c" and "c \<le> 999" and "validHeaderValue msg" and "list_all okHeader hs"
  shows "\<exists>res'. writeHead c msg hs res = Inr res' \<and> out res' = out res \<and>
           destroyed res' = destroyed res \<and>
           (\<exists>H. sent res' = Some (c, msg, H) \<and>
              (\<forall>k. k \<noteq> [] \<longrightarrow>
                 H k = (case headerTable hs k of None \<Rightarrow> headersOf res k | Some v \<Rightarrow> Some v)))"
proof -
  from setHeaders_ok[OF assms(1) assms(6)]
  obtain res1 where r: "setHeaders hs res = Inr res1" "sent res1 = None" "out res1 = out res"
      "destroyed res1 = destroyed res"
      "\<forall>k. k \<noteq> [] \<longrightarrow>
          headersOf res1 k = (case headerTable hs k of None \<Rightarrow> headersOf res k | Some v \<Rightarrow> Some v)"
    by blast
  show ?thesis
    using assms r by (simp add: writeHead_def toInt32_status)
qed

lemma entries_saveEntries: "entries (saveEntries now i) = entries i"
  by (simp add: saveEntries_def setTimeout_def clearTimeout_def Let_def split: option.splits)

lemma hasEntry_begin: "hasEntry (seq px + 1) (begin_dispatch now px w req res rule)"
  by (simp add: hasEntry_def begin_dispatch_def Inspector_onRequest_def entries_saveEntries Let_def
      split: option.splits)

lemma notifyRespond_ok:
  "hasEntry sq d \<Longrightarrow> \<exists>d'. notifyRespond now sq r d = Inr d' \<and> hasEntry sq d' \<and>
      sink d' = sink d \<and> request d' = request d \<and> fetched d' = fetched d \<and> wld d' = wld d \<and>
      errors d' = errors d"
  by (auto simp: hasEntry_def notifyRespond_def Inspector_onRespond_def entries_saveEntries
      split: option.splits)

lemma writeBody_ok:
  "writable b \<Longrightarrow>
     writeBody b d = Inr (d\<lparr>sink := (sink d)\<lparr>out := bodyWritten b\<rparr>\<rparr>)"
  by (cases "(b, d)" rule: writeBody.cases) (auto elim!: writable.elims)

lemma begin_dispatch_fields:
  "seq (proxy (begin_dispatch now px w req res rule)) = seq px + 1"
  "wld (begin_dispatch now px w req res rule) = w"
  "sink (begin_dispatch now px w req res rule) = res"
  "fetched (begin_dispatch now px w req res rule) = None"
  "handlerCalled (begin_dispatch now px w req res rule) = False"
  "errors (begin_dispatch now px w req res rule) = []"
  by (simp_all add: begin_dispatch_def Let_def)

lemma begin_dispatch_request:
  "request (begin_dispatch now px w req res rule) = pause req"
  by (simp add: begin_dispatch_def Let_def Inspector_onRequest_def onData_def pause_def
      split: option.splits)

text \<open>The first rule whose matcher accepts is the one found; none is found when all refuse.\<close>

lemma findRule_first:
  "list_all (\<lambda>x. match x req = Inr False) pre \<Longrightarrow> match r req = Inr True \<Longrightarrow>
     findRule (pre @ r # post) req = Inr (Some r)"
  by (induction pre) simp_all

lemma findRule_none:
  "list_all (\<lambda>x. match x req = Inr False) xs \<Longrightarrow> findRule xs req = Inr None"
  by (induction xs) simp_all

lemma onResponse_emits:
  assumes he: "hasEntry sq d"
      and fresh: "sent (sink d) = None"
      and tab: "outHeaders (sink d) = Some m"
      and st: "statusCode r = Some c" "100 \<le> c" "c \<le> 999"
      and vh: "validHead r"
      and wb: "writable (body r)"
      and k: "k \<noteq> []"
  shows "\<exists>d'. SimpleProxy_onResponse now sq r d = Inr d' \<and> fetched d' = fetched d \<and>
           request d' = request d \<and> errors d' = errors d \<and>
           out (sink d') = bodyWritten (body r) \<and> destroyed (sink d') = destroyed (sink d) \<and>
           sentStatus d' = Some c \<and>
           (case sent (sink d') of
              None \<Rightarrow> False
            | Some t \<Rightarrow> snd (snd t) k =
                (case headerTable (case headersR r of None \<Rightarrow> [] | Some hs \<Rightarrow> hs) k of
                   None \<Rightarrow> headersOf (sink d) k
                 | Some v \<Rightarrow> Some v))"
proof -
  let ?msg = "case statusMessage r of None \<Rightarrow> [] | Some m \<Rightarrow> m"
  let ?hs = "case headersR r of None \<Rightarrow> [] | Some hs \<Rightarrow> hs"
  have v: "validHeaderValue ?msg" "list_all okHeader ?hs"
    using vh by (simp_all add: validHead_def)
  from writeHead_ok[OF fresh tab st(2) st(3) v]
  obtain res1 H where w: "writeHead c ?msg ?hs (sink d) = Inr res1" "out res1 = out (sink d)"
      "destroyed res1 = destroyed (sink d)" "sent res1 = Some (c, ?msg, H)"
      "\<forall>k. k \<noteq> [] \<longrightarrow> H k = (case headerTable ?hs k of None \<Rightarrow> headersOf (sink d) k | Some v \<Rightarrow> Some v)"
    by blast
  have h1: "hasEntry sq (d\<lparr>sink := res1\<rparr>)"
    using he by (simp add: hasEntry_def)
  from notifyRespond_ok[OF h1, of now "iresOf r"]
  obtain d2 where d2: "notifyRespond now sq (iresOf r) (d\<lparr>sink := res1\<rparr>) = Inr d2"
      "sink d2 = res1" "request d2 = request d" "fetched d2 = fetched d" "errors d2 = errors d"
    by auto
  have "SimpleProxy_onResponse now sq r d = Inr (d2\<lparr>sink := res1\<lparr>out := bodyWritten (body r)\<rparr>\<rparr>)"
    using w(1) d2(1,2) st(1) writeBody_ok[OF wb, of d2]
    by (simp add: SimpleProxy_onResponse_def)
  then show ?thesis
    using w d2 k by (simp add: sentStatus_def)
qed

lemma synth_emits:
  assumes he: "hasEntry sq d"
      and fresh: "sent (sink d) = None"
      and vh: "validHead r"
      and wb: "writable (body r)"
  shows "\<exists>d'. synth now sq r False d = Inr d' \<and> fetched d' = fetched d \<and>
           request d' = resume (request d) \<and> errors d' = errors d \<and>
           out (sink d') = bodyWritten (body r) \<and> destroyed (sink d') = destroyed (sink d) \<and>
           sentStatus d' = Some (case statusCode r of None \<Rightarrow> 200 | Some c \<Rightarrow> c) \<and>
           sentHeader ''Access-Control-Allow-Origin'' d' =
             (case ownHeader ''Access-Control-Allow-Origin'' (headersR r) of
                None \<Rightarrow> Some ''*''
              | Some v \<Rightarrow> Some v)"
proof -
  let ?K = "''Access-Control-Allow-Origin''"
  let ?c = "case statusCode r of None \<Rightarrow> 200 | Some c \<Rightarrow> c"
  let ?r1 = "if statusCode r = None then r\<lparr>statusCode := Some 200\<rparr> else r"
  let ?res1 = "(sink d)\<lparr>outHeaders := Some ((headersOf (sink d))(toLowerCase ?K \<mapsto> ''*''))\<rparr>"
  let ?d2 = "d\<lparr>request := resume (request d), sink := ?res1\<rparr>"
  have sh: "setHeader ?K ''*'' (sink d) = Inr ?res1"
    using fresh by (simp add: setHeader_def validHeaderName_def validHeaderValue_def
        isTokenChar_def isHeaderChar_def)
  have eq: "synth now sq r False d = SimpleProxy_onResponse now sq ?r1 ?d2"
    using sh by (simp add: synth_def Let_def)
  have he2: "hasEntry sq ?d2" using he by (simp add: hasEntry_def)
  have f2: "sent (sink ?d2) = None" using fresh by simp
  have t2: "outHeaders (sink ?d2) = Some ((headersOf (sink d))(toLowerCase ?K \<mapsto> ''*''))" by simp
  have st: "statusCode ?r1 = Some ?c" by (simp split: option.splits)
  have rng: "100 \<le> ?c" "?c \<le> 999"
    using vh by (auto simp: validHead_def split: option.splits)
  have vh2: "validHead ?r1" using vh by (simp add: validHead_def)
  have wb2: "writable (body ?r1)" using wb by simp
  have k: "toLowerCase ?K \<noteq> []" by (simp add: toLowerCase_def)
  from onResponse_emits[OF he2 f2 t2 st rng vh2 wb2 k, of now]
  obtain d' where d': "SimpleProxy_onResponse now sq ?r1 ?d2 = Inr d'" "fetched d' = fetched ?d2"
      "request d' = request ?d2" "errors d' = errors ?d2"
      "out (sink d') = bodyWritten (body ?r1)" "destroyed (sink d') = destroyed (sink ?d2)"
      "sentStatus d' = Some ?c"
      "case sent (sink d') of
              None \<Rightarrow> False
            | Some t \<Rightarrow> snd (snd t) (toLowerCase ?K) =
                (case headerTable (case headersR ?r1 of None \<Rightarrow> [] | Some hs \<Rightarrow> hs) (toLowerCase ?K) of
                   None \<Rightarrow> headersOf (sink ?d2) (toLowerCase ?K)
                 | Some v \<Rightarrow> Some v)"
    by blast
  have hr: "headersR ?r1 = headersR r" by simp
  have hd: "sentHeader ?K d' =
             (case ownHeader ?K (headersR r) of None \<Rightarrow> Some ''*'' | Some v \<Rightarrow> Some v)"
    using d'(8) unfolding hr
    by (cases "headersR r")
       (auto simp: sentHeader_def ownHeader_def headerTable_def headersOf_def
          split: option.splits)
  show ?thesis
    using eq d'(1-7) hd by simp
qed

lemma preflight_ok:
  assumes "sent (sink d) = None"
  shows "\<exists>d'. preflight d = Inr d' \<and> handlerCalled d' = handlerCalled d \<and> wld d' = wld d \<and>
           fetched d' = fetched d \<and> errors d' = errors d \<and>
           request d' = resume (request d) \<and>
           sentStatus d' = Some 204 \<and>
           sentHeader ''Access-Control-Allow-Origin'' d' = Some ''*'' \<and>
           sentHeader ''Access-Control-Allow-Methods'' d' = Some ''*'' \<and>
           sentHeader ''Access-Control-Allow-Headers'' d' = Some ''*'' \<and>
           out (sink d') = Some (Ended None) \<and> destroyed (sink d') = destroyed (sink d)"
proof (cases "outHeaders (sink d)")
  case None
  then show ?thesis
    using assms
    by (simp add: preflight_def writeHead_def toInt32_def validHeaderValue_def isHeaderChar_def
        validPair_def validHeaderName_def isTokenChar_def headerTable_def toLowerCase_def
        toLowerChar_def sentStatus_def sentHeader_def resume_def)
next
  case (Some m)
  then show ?thesis
    using assms
    by (simp add: preflight_def writeHead_def toInt32_def validHeaderValue_def isHeaderChar_def
        setHeader_def validHeaderName_def isTokenChar_def headersOf_def toLowerCase_def
        toLowerChar_def sentStatus_def sentHeader_def resume_def)
qed

section \<open>Dispatch: coercion of the request hook's result\<close>

text \<open>
  C1, as amended. Take a request whose URL parses and whose method is not OPTIONS, let
  \<open>r\<close> be the first rule whose matcher accepts it, and let the request hook of \<open>r\<close>
  resolve to \<open>rt\<close>; the sink has no head yet. Then dispatch returns, and: for \<open>false\<close>
  the sink is untouched and nothing is fetched; for \<open>undefined\<close>, \<open>null\<close> and \<open>true\<close> the
  URL built from the original request is fetched upstream; for a URL object that URL is
  fetched. A result that the emitter can write out (a string, a stream, or a RuleResponse
  with a valid head and a string, a stream or no body) is emitted as a synthesized
  response: the head is written with status 200, or with the RuleResponse's own status
  when it has one, the body is written, and the sink is not destroyed. The head carries
  \<open>Access-Control-Allow-Origin: *\<close> unless the response's own headers name that header:
  then the response's own value is sent. Nothing is stated here about a result that is
  an Error or a plain object.
\<close>

theorem coerce_request_hook_result:
  assumes url: "newURL P (url req) (Some (proto @ ''://'' @ hostOf req)) = Some u"
      and rules: "rules px = pre @ r # post"
      and before: "list_all (\<lambda>x. match x req = Inr False) pre"
      and matches: "match r req = Inr True"
      and meth: "reqMethod req \<noteq> ''OPTIONS''"
      and hook: "onRequest r = Some h"
      and res: "h now w (seq px + 1) (pause req) (args r) = Inr (rt, req', w')"
      and fresh: "sent res = None"
      and emit: "emittable rt"
  shows "\<exists>d. forwardRequest P now px w req res proto = Inr d \<and>
     (case rt of
        RBool b \<Rightarrow>
          (if b
           then fetched d = Some \<lparr>target = u, outMethod = reqMethod req', outHeaders' = headers req'\<rparr>
                  \<and> sink d = res
           else fetched d = None \<and> sink d = res \<and> request d = req')
      | RUndefined \<Rightarrow>
          fetched d = Some \<lparr>target = u, outMethod = reqMethod req', outHeaders' = headers req'\<rparr>
            \<and> sink d = res
      | RNull \<Rightarrow>
          fetched d = Some \<lparr>target = u, outMethod = reqMethod req', outHeaders' = headers req'\<rparr>
            \<and> sink d = res
      | RURL t \<Rightarrow>
          fetched d = Some \<lparr>target = t, outMethod = reqMethod req', outHeaders' = headers req'\<rparr>
            \<and> sink d = res
      | RResponse resp \<Rightarrow>
          fetched d = None \<and>
          sentStatus d = Some (case statusCode resp of None \<Rightarrow> 200 | Some c \<Rightarrow> c) \<and>
          sentHeader ''Access-Control-Allow-Origin'' d =
            (case ownHeader ''Access-Control-Allow-Origin'' (headersR resp) of
               None \<Rightarrow> Some ''*''
             | Some v \<Rightarrow> Some v) \<and>
          out (sink d) = bodyWritten (body resp) \<and>
          destroyed (sink d) = destroyed res \<and> errors d = [] \<and>
          flowing (request d) = Some True
      | RValue v \<Rightarrow>
          fetched d = None \<and>
          sentStatus d = Some 200 \<and>
          sentHeader ''Access-Control-Allow-Origin'' d = Some ''*'' \<and>
          out (sink d) = bodyWritten (Some v) \<and>
          destroyed (sink d) = destroyed res \<and> errors d = [] \<and>
          flowing (request d) = Some True)"
proof -
  let ?d0 = "begin_dispatch now px w req res (Some r)"
  let ?dh = "?d0\<lparr>request := req', wld := w', handlerCalled := True\<rparr>"
  have found: "findRule (rules px) req = Inr (Some r)"
    using findRule_first[OF before matches] rules by simp
  have call: "callOnRequest now (seq px + 1) (Some r) ?d0 = Inr (rt, ?dh)"
    using hook res by (simp add: callOnRequest_def begin_dispatch_fields begin_dispatch_request)
  have fr: "forwardRequest P now px w req res proto = coerce now (seq px + 1) u rt ?dh"
    using url found meth call by (simp add: forwardRequest_def Let_def begin_dispatch_fields)
  have he: "hasEntry (seq px + 1) ?dh"
    using hasEntry_begin[of px now w req res "Some r"] by (simp add: hasEntry_def)
  have fd: "fetched ?dh = None" "sink ?dh = res" "request ?dh = req'" "errors ?dh = []"
    by (simp_all add: begin_dispatch_fields)
  have fs: "sent (sink ?dh) = None"
    using fresh fd by simp
  show ?thesis
  proof (cases rt)
    case (RBool b)
    then show ?thesis using fr fd by (cases b) (simp_all add: fetch_def)
  next
    case RUndefined
    then show ?thesis using fr fd by (simp add: fetch_def)
  next
    case RNull
    then show ?thesis using fr fd by (simp add: fetch_def)
  next
    case (RURL t)
    then show ?thesis using fr fd by (simp add: fetch_def)
  next
    case (RResponse resp)
    have v: "validHead resp" "writable (body resp)"
      using emit RResponse by simp_all
    from synth_emits[OF he fs v, of now]
    show ?thesis using fr fd RResponse by (auto simp: resume_def)
  next
    case (RValue v)
    let ?r0 = "\<lparr>statusCode = Some 200, statusMessage = None, headersR = None, body = Some v\<rparr>"
    have ne: "isError v = False"
      using emit RValue by (cases v) simp_all
    have vh: "validHead ?r0" "writable (body ?r0)"
      using emit RValue by (simp_all add: validHead_def validHeaderValue_def)
    from synth_emits[OF he fs vh, of now]
    show ?thesis using fr fd RValue ne by (auto simp: ownHeader_def resume_def)
  qed
qed

text \<open>
  The theorem at work: the rules \<open>cache|/img|60\<close> and \<open>file|/a.js|/srv/a.js\<close>, and
  \<open>GET http://x/a.js\<close>. The first rule does not match, the second does; its hook resolves
  to a read stream, which is piped to the client with status 200 and the header.
\<close>

theorem coerce_request_hook_result_witness:
  "\<exists>d. forwardRequest demo_platform 1700000000000 demo_two_rule_proxy demo_world
          (demo_request ''GET'' ''http://x/a.js'') newServerResponse ''http'' = Inr d \<and>
       fetched d = None \<and> sentStatus d = Some 200 \<and>
       sentHeader ''Access-Control-Allow-Origin'' d = Some ''*'' \<and>
       out (sink d) = Some (Piped (FileStream ''/srv/a.js'')) \<and>
       destroyed (sink d) = None \<and> errors d = [] \<and> flowing (request d) = Some True"
proof -
  let ?R = "demo_request ''GET'' ''http://x/a.js''"
  let ?c = "hd (rules demo_two_rule_proxy)"
  let ?f = "hd (tl (rules demo_two_rule_proxy))"
  have url: "newURL demo_platform (url ?R) (Some (''http'' @ ''://'' @ hostOf ?R))
               = Some \<lparr>protocol = ''http:'', host = ''x'', pathname = ''/a.js'', search = []\<rparr>"
    by (simp add: demo_defs hostOf_def)
  have rules: "rules demo_two_rule_proxy = [?c] @ ?f # []"
    by (simp add: demo_two_rule_proxy_def newSimpleProxy_def proxy_file_def proxy_cache_def
        addRule_def)
  have before: "list_all (\<lambda>x. match x ?R = Inr False) [?c]"
    by (simp add: demo_two_rule_proxy_def demo_defs engine_defs)
  have matches: "match ?f ?R = Inr True"
    by (simp add: demo_two_rule_proxy_def demo_defs engine_defs)
  have meth: "reqMethod ?R \<noteq> ''OPTIONS''"
    by (simp add: demo_defs)
  have hook: "onRequest ?f = Some file_onRequest"
    by (simp add: demo_two_rule_proxy_def newSimpleProxy_def proxy_file_def proxy_cache_def
        addRule_def)
  have res: "file_onRequest 1700000000000 demo_world (seq demo_two_rule_proxy + 1) (pause ?R)
               (args ?f)
             = Inr (RValue (VStream (FileStream ''/srv/a.js'')), pause ?R, demo_world)"
    by (simp add: demo_two_rule_proxy_def newSimpleProxy_def proxy_file_def proxy_cache_def
        addRule_def file_onRequest_def existsSync_def demo_world_def)
  have fresh: "sent newServerResponse = None"
    by (simp add: newServerResponse_def)
  have emit: "emittable (RValue (VStream (FileStream ''/srv/a.js'')))"
    by simp
  have nd: "destroyed newServerResponse = None"
    by (simp add: newServerResponse_def)
  from coerce_request_hook_result[OF url rules before matches meth hook res fresh emit]
  show ?thesis by (simp add: nd)
qed

text \<open>
  C1 as the specification states it fails: with the rule \<open>cache|/img|60\<close> and a fresh
  entry whose stored headers hold \<open>access-control-allow-origin: https://a.example\<close>, the
  hook resolves to a RuleResponse with these headers. It is emitted in full, the body
  piped from the body file, and the head carries the stored value, not \<open>*\<close>.
\<close>

theorem cached_response_keeps_own_allow_origin:
  "map_sum id fst
     (CacheRule_onRequest demo_platform ''/c'' 1700000030000 demo_world 1
        (pause (demo_request ''GET'' ''http://x/img?v=1'')) (CacheArgs (Some 60) None))
     = Inr (RResponse \<lparr>statusCode = Some 200, statusMessage = Some ''OK'',
              headersR = Some [(''access-control-allow-origin'', ''https://a.example'')],
              body = Some (VStream (FileStream ''/c/x/img/GET.body''))\<rparr>) \<and>
   map_sum id (sentHeader ''Access-Control-Allow-Origin'')
     (forwardRequest demo_platform 1700000030000
        (proxy_cache demo_platform ''/c'' (PString ''/img'') (Some 60) None (newSimpleProxy None))
        demo_world (demo_request ''GET'' ''http://x/img?v=1'') newServerResponse ''http'')
     = Inr (Some ''https://a.example'') \<and>
   map_sum id (sentHeader ''Access-Control-Allow-Origin'')
     (forwardRequest demo_platform 1700000030000
        (proxy_cache demo_platform ''/c'' (PString ''/img'') (Some 60) None (newSimpleProxy None))
        demo_world (demo_request ''GET'' ''http://x/img?v=1'') newServerResponse ''http'')
     \<noteq> Inr (Some ''*'') \<and>
   map_sum id sink
     (forwardRequest demo_platform 1700000030000
        (proxy_cache demo_platform ''/c'' (PString ''/img'') (Some 60) None (newSimpleProxy None))
        demo_world (demo_request ''GET'' ''http://x/img?v=1'') newServerResponse ''http'')
     = Inr \<lparr>outHeaders = Some [''access-control-allow-origin'' \<mapsto> ''https://a.example''],
            sent = Some (200, ''OK'', [''access-control-allow-origin'' \<mapsto> ''https://a.example'']),
            out = Some (Piped (FileStream ''/c/x/img/GET.body'')), destroyed = None\<rparr>"
  by (simp add: demo_defs engine_defs)

section \<open>The file rule and a missing path\<close>

text \<open>
  C2. The specification says a request matched by a \<open>file\<close> rule whose path is missing is
  answered with status 404. The handler returns the object literal \<open>{statusCode: 404}\<close>,
  which is not an instance of RuleResponse: dispatch wraps it as the body of a response
  with status 200 and calls \<open>writeHead\<close> with 200; the body write then throws because the
  body is an object, and the sink is destroyed before anything reaches the client. Rule
  \<open>file|/a.js|/missing\<close>, request \<open>GET http://x/a.js\<close>.
\<close>

theorem file_rule_missing_path_status:
  "file_rule demo_world (StrArg ''/missing'') = RValue (VObj [(''statusCode'', PNum 404)]) \<and>
   map_sum id sink
     (forwardRequest demo_platform 1700000000000
        (proxy_file demo_platform (PString ''/a.js'') ''/missing'' (newSimpleProxy None))
        demo_world (demo_request ''GET'' ''http://x/a.js'') newServerResponse ''http'')
     = Inr \<lparr>outHeaders = Some [''access-control-allow-origin'' \<mapsto> ''*''],
            sent = Some (200, [], [''access-control-allow-origin'' \<mapsto> ''*'']),
            out = None, destroyed = Some TypeError\<rparr>"
  by (simp add: demo_defs engine_defs)

section \<open>The cache rule\<close>

text \<open>
  C3. For a well-formed argument bundle and a request whose URL parses, let \<open>f\<close> be the
  selected cache file. If the head file exists (holding the head \<open>h\<close>) and \<open>ttl\<close> is unset
  or \<open>updateTime + ttl * 1000 \<ge> now\<close>, the request hook returns a RuleResponse with the
  status, message and headers of \<open>h\<close>, whose body is a read stream of the body file, or
  the empty string when the body file is absent; the state is unchanged. Otherwise (the
  head is stale, or there is no head file) it records \<open>{file, ttl}\<close> under \<open>seq\<close> and
  returns \<open>undefined\<close>, which dispatch treats as Passthrough.
\<close>

theorem cache_request_hook:
  assumes args: "cacheArgs a = Inr (ttl, cbq)"
      and key: "getCacheFile P cdir w req cbq = Inr f"
      and hd: "files w (headFile f) = Some (Head h) \<or> files w (headFile f) = None"
  shows "CacheRule_onRequest P cdir now w sq req a =
           (if files w (headFile f) = Some (Head h) \<and>
               (ttl = None \<or>
                (\<exists>t u. ttl = Some t \<and> updateTime h = Some u \<and> now \<le> u + t * 1000))
            then Inr (RResponse
                       \<lparr>statusCode = hStatusCode h, statusMessage = hStatusMessage h,
                        headersR = hHeaders h,
                        body = Some (if files w (bodyFile f) = None then VStr []
                                     else VStream (FileStream (bodyFile f)))\<rparr>, w)
            else Inr (RUndefined, w\<lparr>requests := (requests w)(sq \<mapsto> (f, ttl))\<rparr>))"
proof -
  have ex: "exist f = (files w (headFile f) \<noteq> None)"
    using key by (auto simp: getCacheFile_def Let_def existsSync_def split: option.splits)
  have fr: "isFresh ttl h now =
              (ttl = None \<or>
               (\<exists>t u. ttl = Some t \<and> updateTime h = Some u \<and> now \<le> u + t * 1000))"
    by (auto simp: isFresh_def split: option.splits)
  from hd show ?thesis
  proof
    assume "files w (headFile f) = Some (Head h)"
    then show ?thesis
      using args key ex fr
      by (simp add: CacheRule_onRequest_def fromHead_def record_request_def existsSync_def)
  next
    assume "files w (headFile f) = None"
    then show ?thesis
      using args key ex by (simp add: CacheRule_onRequest_def record_request_def)
  qed
qed

text \<open>
  The theorem at work on the stored entry with \<open>ttl = 60\<close>: 30 seconds after the update
  the entry is served from the head, 90 seconds after it the request is recorded and
  passed through.
\<close>

theorem cache_request_hook_witness:
  "CacheRule_onRequest demo_platform ''/c'' 1700000030000 demo_world 1
     (demo_request ''GET'' ''http://x/img?v=1'') (CacheArgs (Some 60) None)
   = Inr (RResponse \<lparr>statusCode = Some 200, statusMessage = Some ''OK'',
            headersR = Some [(''access-control-allow-origin'', ''https://a.example'')],
            body = Some (VStream (FileStream ''/c/x/img/GET.body''))\<rparr>, demo_world) \<and>
   CacheRule_onRequest demo_platform ''/c'' 1700000090000 demo_world 1
     (demo_request ''GET'' ''http://x/img?v=1'') (CacheArgs (Some 60) None)
   = Inr (RUndefined,
          demo_world\<lparr>requests :=
            [1 \<mapsto> (\<lparr>dir = ''/c/x/img'', headFile = ''/c/x/img/GET.head'',
                      bodyFile = ''/c/x/img/GET.body'', exist = True\<rparr>, Some 60)]\<rparr>)"
proof -
  let ?R = "demo_request ''GET'' ''http://x/img?v=1''"
  let ?f = "\<lparr>dir = ''/c/x/img'', headFile = ''/c/x/img/GET.head'',
             bodyFile = ''/c/x/img/GET.body'', exist = True\<rparr>"
  have args: "cacheArgs (CacheArgs (Some 60) None) = Inr (Some 60, False)"
    by simp
  have key: "getCacheFile demo_platform ''/c'' demo_world ?R False = Inr ?f"
    by (simp add: demo_defs engine_defs)
  have hd: "files demo_world (headFile ?f) = Some (Head demo_head) \<or>
            files demo_world (headFile ?f) = None"
    by (simp add: demo_world_def)
  have b: "files demo_world ''/c/x/img/GET.body'' \<noteq> None"
    "files demo_world ''/c/x/img/GET.head'' = Some (Head demo_head)"
    "requests demo_world = Map.empty"
    by (simp_all add: demo_world_def)
  from cache_request_hook[OF args key hd, of 1700000030000 1]
       cache_request_hook[OF args key hd, of 1700000090000 1]
  show ?thesis using b by (simp add: demo_head_def)
qed

text \<open>
  C4. For requests with a method whose URL parses: the directory of the cache entry is
  computed from the host and the path only; the base name of its files is the method,
  and with \<open>cacheByQuery\<close> set and a query present it is the method and the MD5 digest
  of the query, joined by a dot. With \<open>cacheByQuery\<close> unset, two requests that agree in
  host, path and method select the same entry, whatever their queries. (The digest is
  taken of \<open>url.search\<close>, the query with its question mark; a digest is never empty.)
\<close>

theorem cache_key:
  assumes u1: "newURL P (url r1) (Some (''http://'' @ hostOf r1)) = Some u1"
      and u2: "newURL P (url r2) (Some (''http://'' @ hostOf r2)) = Some u2"
      and same: "host u1 = host u2" "pathname u1 = pathname u2" "reqMethod r1 = reqMethod r2"
      and m: "reqMethod r1 \<noteq> []"
      and h: "md5 P (search u1) \<noteq> []"
  shows "getCacheFile P cdir w r1 False = getCacheFile P cdir w r2 False \<and>
         map_sum id dir (getCacheFile P cdir w r1 cbq)
           = Inr (resolve P cdir (replaceFirst (CHR '':'') ''/'' (host u1 @ pathname u1))) \<and>
         map_sum id headFile (getCacheFile P cdir w r1 cbq)
           = Inr (resolve P
                    (resolve P cdir (replaceFirst (CHR '':'') ''/'' (host u1 @ pathname u1)))
                    (if cbq \<and> search u1 \<noteq> [] then reqMethod r1 @ ''.'' @ md5 P (search u1)
                     else reqMethod r1) @ ''.head'') \<and>
         map_sum id bodyFile (getCacheFile P cdir w r1 cbq)
           = Inr (resolve P
                    (resolve P cdir (replaceFirst (CHR '':'') ''/'' (host u1 @ pathname u1)))
                    (if cbq \<and> search u1 \<noteq> [] then reqMethod r1 @ ''.'' @ md5 P (search u1)
                     else reqMethod r1) @ ''.body'')"
  using assms by (simp add: getCacheFile_def Let_def)

text \<open>
  The theorem at work: \<open>GET http://x/img?v=1\<close> and \<open>GET http://x/img?v=2\<close> select the same
  entry without \<open>cacheByQuery\<close>; with it the head file of the first carries the digest.
\<close>

theorem cache_key_witness:
  "getCacheFile demo_platform ''/c'' demo_world (demo_request ''GET'' ''http://x/img?v=1'') False
     = getCacheFile demo_platform ''/c'' demo_world (demo_request ''GET'' ''http://x/img?v=2'') False \<and>
   map_sum id headFile
     (getCacheFile demo_platform ''/c'' demo_world (demo_request ''GET'' ''http://x/img?v=1'') False)
     = Inr ''/c/x/img/GET.head'' \<and>
   map_sum id headFile
     (getCacheFile demo_platform ''/c'' demo_world (demo_request ''GET'' ''http://x/img?v=1'') True)
     = Inr ''/c/x/img/GET.4c03fb5467a8c671a449482848d26161.head''"
proof -
  let ?R1 = "demo_request ''GET'' ''http://x/img?v=1''"
  let ?R2 = "demo_request ''GET'' ''http://x/img?v=2''"
  let ?u1 = "\<lparr>protocol = ''http:'', host = ''x'', pathname = ''/img'', search = ''?v=1''\<rparr>"
  let ?u2 = "\<lparr>protocol = ''http:'', host = ''x'', pathname = ''/img'', search = ''?v=2''\<rparr>"
  have u1: "newURL demo_platform (url ?R1) (Some (''http://'' @ hostOf ?R1)) = Some ?u1"
    by (simp add: demo_defs hostOf_def)
  have u2: "newURL demo_platform (url ?R2) (Some (''http://'' @ hostOf ?R2)) = Some ?u2"
    by (simp add: demo_defs hostOf_def)
  have same: "host ?u1 = host ?u2" "pathname ?u1 = pathname ?u2" "reqMethod ?R1 = reqMethod ?R2"
    by (simp_all add: demo_defs)
  have m: "reqMethod ?R1 \<noteq> []"
    by (simp add: demo_defs)
  have h: "md5 demo_platform (search ?u1) \<noteq> []"
    by (simp add: demo_defs)
  note k1 = cache_key[OF u1 u2 same m h, of "''/c''" demo_world False]
  note k2 = cache_key[OF u1 u2 same m h, of "''/c''" demo_world True]
  have c1: "getCacheFile demo_platform ''/c'' demo_world ?R1 False
              = getCacheFile demo_platform ''/c'' demo_world ?R2 False"
    using k1 by blast
  have c2: "map_sum id headFile (getCacheFile demo_platform ''/c'' demo_world ?R1 False)
              = Inr ''/c/x/img/GET.head''"
    using conjunct1[OF conjunct2[OF conjunct2[OF k1]]]
    by (simp add: demo_platform_def demo_request_def)
  have c3: "map_sum id headFile (getCacheFile demo_platform ''/c'' demo_world ?R1 True)
              = Inr ''/c/x/img/GET.4c03fb5467a8c671a449482848d26161.head''"
    using conjunct1[OF conjunct2[OF conjunct2[OF k2]]]
    by (simp add: demo_platform_def demo_request_def demo_md5_def)
  show ?thesis using c1 c2 c3 by blast
qed

section \<open>The forward rule\<close>

text \<open>
  C5. The specification says the \<open>forward\<close> hook rewrites the request's target by
  stripping the prefix \<open>scheme://original-host\<close> from the new URL, sets the Host header to
  the new URL's host and returns the new URL. The hook drops as many characters as the
  template \<open>${uri.protocol}://${req.headers.host}\<close> has, and \<open>uri.protocol\<close> ends with a
  colon of its own: one character too many. Forwarding a request for host \<open>x\<close> to
  \<open>https://x/v2/\<close> leaves the target \<open>v2/\<close>, not \<open>/v2/\<close>; forwarding it to
  \<open>https://upstream/v2/\<close> leaves \<open>stream/v2/\<close>. The Host header and the returned URL are
  as the specification says.
\<close>

theorem forward_drops_one_character_too_many:
  "forward demo_platform (demo_request ''GET'' ''http://x/api/u'') (StrArg ''https://x/v2/'')
     = Inr (RURL \<lparr>protocol = ''https:'', host = ''x'', pathname = ''/v2/'', search = []\<rparr>,
            \<lparr>url = ''v2/'', reqMethod = ''GET'', headers = [''host'' \<mapsto> ''x''], flowing = None\<rparr>) \<and>
   ''https://x'' @ ''/v2/'' = ''https://x/v2/'' \<and>
   forward demo_platform (demo_request ''GET'' ''http://x/api/u'') (StrArg ''https://upstream/v2/'')
     = Inr (RURL \<lparr>protocol = ''https:'', host = ''upstream'', pathname = ''/v2/'', search = []\<rparr>,
            \<lparr>url = ''stream/v2/'', reqMethod = ''GET'', headers = [''host'' \<mapsto> ''upstream''],
             flowing = None\<rparr>)"
  by (simp add: demo_defs engine_defs)

section \<open>Preflight requests\<close>

text \<open>
  C6. For a request with method OPTIONS whose URL parses: if some rule's matcher accepts
  it (\<open>r\<close> being the first that does) and the sink has no head yet, dispatch resumes the
  request and answers 204 with \<open>Access-Control-Allow-Origin\<close>,
  \<open>Access-Control-Allow-Methods\<close> and \<open>Access-Control-Allow-Headers\<close> all set to \<open>*\<close>, ends
  the response, and does not run the request hook of any rule; if every rule's matcher
  refuses it, the original URL is fetched upstream and nothing is written to the sink.
\<close>

theorem options_preflight:
  assumes url: "newURL P (url req) (Some (proto @ ''://'' @ hostOf req)) = Some u"
      and meth: "reqMethod req = ''OPTIONS''"
  shows "(rules px = pre @ r # post \<and> list_all (\<lambda>x. match x req = Inr False) pre \<and>
          match r req = Inr True \<and> sent res = None \<longrightarrow>
            (\<exists>d. forwardRequest P now px w req res proto = Inr d \<and>
                 \<not> handlerCalled d \<and> wld d = w \<and>
                 sentStatus d = Some 204 \<and>
                 sentHeader ''Access-Control-Allow-Origin'' d = Some ''*'' \<and>
                 sentHeader ''Access-Control-Allow-Methods'' d = Some ''*'' \<and>
                 sentHeader ''Access-Control-Allow-Headers'' d = Some ''*'' \<and>
                 out (sink d) = Some (Ended None) \<and>
                 destroyed (sink d) = destroyed res \<and>
                 flowing (request d) = Some True \<and>
                 fetched d = None)) \<and>
         (list_all (\<lambda>x. match x req = Inr False) (rules px) \<longrightarrow>
            (\<exists>d. forwardRequest P now px w req res proto = Inr d \<and>
                 \<not> handlerCalled d \<and> wld d = w \<and>
                 fetched d = Some \<lparr>target = u, outMethod = ''OPTIONS'', outHeaders' = headers req\<rparr> \<and>
                 sink d = res))"
proof (intro conjI impI)
  assume a: "rules px = pre @ r # post \<and> list_all (\<lambda>x. match x req = Inr False) pre \<and>
             match r req = Inr True \<and> sent res = None"
  let ?d0 = "begin_dispatch now px w req res (Some r)"
  have found: "findRule (rules px) req = Inr (Some r)"
    using a findRule_first[where pre=pre and r=r and post=post and req=req] by simp
  have fr: "forwardRequest P now px w req res proto = preflight ?d0"
    using url found meth by (simp add: forwardRequest_def Let_def)
  have "sent (sink ?d0) = None"
    using a by (simp add: begin_dispatch_fields)
  from preflight_ok[OF this]
  show "\<exists>d. forwardRequest P now px w req res proto = Inr d \<and>
                 \<not> handlerCalled d \<and> wld d = w \<and>
                 sentStatus d = Some 204 \<and>
                 sentHeader ''Access-Control-Allow-Origin'' d = Some ''*'' \<and>
                 sentHeader ''Access-Control-Allow-Methods'' d = Some ''*'' \<and>
                 sentHeader ''Access-Control-Allow-Headers'' d = Some ''*'' \<and>
                 out (sink d) = Some (Ended None) \<and>
                 destroyed (sink d) = destroyed res \<and>
                 flowing (request d) = Some True \<and>
                 fetched d = None"
    using fr by (auto simp: begin_dispatch_fields begin_dispatch_request resume_def)
next
  assume a: "list_all (\<lambda>x. match x req = Inr False) (rules px)"
  have found: "findRule (rules px) req = Inr None"
    using findRule_none[OF a] .
  have "callOnRequest now (seq px + 1) None (begin_dispatch now px w req res None)
          = Inr (RUndefined, begin_dispatch now px w req res None)"
    by (simp add: callOnRequest_def)
  then show "\<exists>d. forwardRequest P now px w req res proto = Inr d \<and>
                 \<not> handlerCalled d \<and> wld d = w \<and>
                 fetched d = Some \<lparr>target = u, outMethod = ''OPTIONS'', outHeaders' = headers req\<rparr> \<and>
                 sink d = res"
    using url found meth
    by (simp add: forwardRequest_def Let_def begin_dispatch_fields fetch_def
        begin_dispatch_request pause_def)
qed

text \<open>
  The theorem at work on the proxy with the rules \<open>cache|/img|60\<close> and
  \<open>file|/a.js|/srv/a.js\<close>: \<open>OPTIONS http://x/a.js\<close> is refused by the first matcher and
  accepted by the second, and is answered 204; \<open>OPTIONS http://x/other\<close> is refused by
  both and is forwarded.
\<close>

theorem options_preflight_witness:
  "(\<exists>d. forwardRequest demo_platform 1700000000000 demo_two_rule_proxy demo_world
          (demo_request ''OPTIONS'' ''http://x/a.js'') newServerResponse ''http'' = Inr d \<and>
       \<not> handlerCalled d \<and> wld d = demo_world \<and> sentStatus d = Some 204 \<and>
       sentHeader ''Access-Control-Allow-Origin'' d = Some ''*'' \<and>
       sentHeader ''Access-Control-Allow-Methods'' d = Some ''*'' \<and>
       sentHeader ''Access-Control-Allow-Headers'' d = Some ''*'' \<and>
       out (sink d) = Some (Ended None) \<and> destroyed (sink d) = None \<and>
       flowing (request d) = Some True \<and> fetched d = None) \<and>
   (\<exists>d. forwardRequest demo_platform 1700000000000 demo_two_rule_proxy demo_world
          (demo_request ''OPTIONS'' ''http://x/other'') newServerResponse ''http'' = Inr d \<and>
       \<not> handlerCalled d \<and> wld d = demo_world \<and>
       fetched d = Some \<lparr>target = \<lparr>protocol = ''http:'', host = ''x'', pathname = ''/other'',
                                    search = []\<rparr>,
                          outMethod = ''OPTIONS'', outHeaders' = [''host'' \<mapsto> ''x'']\<rparr> \<and>
       sink d = newServerResponse)"
proof -
  let ?R = "demo_request ''OPTIONS'' ''http://x/a.js''"
  let ?Q = "demo_request ''OPTIONS'' ''http://x/other''"
  let ?c = "hd (rules demo_two_rule_proxy)"
  let ?f = "hd (tl (rules demo_two_rule_proxy))"
  have url: "newURL demo_platform (url ?R) (Some (''http'' @ ''://'' @ hostOf ?R))
               = Some \<lparr>protocol = ''http:'', host = ''x'', pathname = ''/a.js'', search = []\<rparr>"
    by (simp add: demo_defs hostOf_def)
  have urlq: "newURL demo_platform (url ?Q) (Some (''http'' @ ''://'' @ hostOf ?Q))
               = Some \<lparr>protocol = ''http:'', host = ''x'', pathname = ''/other'', search = []\<rparr>"
    by (simp add: demo_defs hostOf_def)
  have meth: "reqMethod ?R = ''OPTIONS''" "reqMethod ?Q = ''OPTIONS''"
    by (simp_all add: demo_defs)
  have rules: "rules demo_two_rule_proxy = [?c] @ ?f # []"
    by (simp add: demo_two_rule_proxy_def newSimpleProxy_def proxy_file_def proxy_cache_def
        addRule_def)
  have before: "list_all (\<lambda>x. match x ?R = Inr False) [?c]"
    by (simp add: demo_two_rule_proxy_def demo_defs engine_defs)
  have matches: "match ?f ?R = Inr True"
    by (simp add: demo_two_rule_proxy_def demo_defs engine_defs)
  have none: "list_all (\<lambda>x. match x ?Q = Inr False) (rules demo_two_rule_proxy)"
    by (simp add: demo_two_rule_proxy_def demo_defs engine_defs)
  have fresh: "sent newServerResponse = None" "destroyed newServerResponse = None"
    by (simp_all add: newServerResponse_def)
  have hs: "headers ?Q = [''host'' \<mapsto> ''x'']"
    by (simp add: demo_defs)
  note t1 = options_preflight[OF url meth(1), where px=demo_two_rule_proxy and pre="[?c]" and r="?f"
              and post="[]" and res=newServerResponse and now=1700000000000 and w=demo_world]
  note t2 = options_preflight[OF urlq meth(2), where px=demo_two_rule_proxy and pre="[?c]" and r="?f"
              and post="[]" and res=newServerResponse and now=1700000000000 and w=demo_world]
  have p1: "\<exists>d. forwardRequest demo_platform 1700000000000 demo_two_rule_proxy demo_world ?R
                  newServerResponse ''http'' = Inr d \<and>
       \<not> handlerCalled d \<and> wld d = demo_world \<and> sentStatus d = Some 204 \<and>
       sentHeader ''Access-Control-Allow-Origin'' d = Some ''*'' \<and>
       sentHeader ''Access-Control-Allow-Methods'' d = Some ''*'' \<and>
       sentHeader ''Access-Control-Allow-Headers'' d = Some ''*'' \<and>
       out (sink d) = Some (Ended None) \<and> destroyed (sink d) = None \<and>
       flowing (request d) = Some True \<and> fetched d = None"
    using conjunct1[OF t1] rules before matches fresh by simp
  have p2: "\<exists>d. forwardRequest demo_platform 1700000000000 demo_two_rule_proxy demo_world ?Q
                  newServerResponse ''http'' = Inr d \<and>
       \<not> handlerCalled d \<and> wld d = demo_world \<and>
       fetched d = Some \<lparr>target = \<lparr>protocol = ''http:'', host = ''x'', pathname = ''/other'',
                                    search = []\<rparr>,
                          outMethod = ''OPTIONS'', outHeaders' = [''host'' \<mapsto> ''x'']\<rparr> \<and>
       sink d = newServerResponse"
    using conjunct2[OF t2] none hs by simp
  show ?thesis using p1 p2 by blast
qed

section \<open>The rule matcher\<close>

text \<open>
  C7. The specification says a string pattern is compiled by stripping a leading
  \<open>http://\<close> or \<open>https://\<close>, splitting on \<open>*\<close>, regex-escaping each segment and joining
  with \<open>.*?\<close>. The code escapes the segments with JSON.stringify, which leaves the
  regular-expression operators alone: for the pattern \<open>http://a.b/*.js\<close> the compiled
  source is \<open>a.b/.*?.js\<close>, with both dots still wildcards, where regex-escaping gives
  \<open>a\.b/.*?\.js\<close>.
\<close>

theorem createMatcher_does_not_regex_escape:
  "createMatcher (PString ''http://a.b/*.js'') = ''a.b/.*?.js'' \<and>
   createMatcher_spec ''http://a.b/*.js''
     = ''a'' @ [backslash] @ ''.b/.*?'' @ [backslash] @ ''.js'' \<and>
   createMatcher (PString ''http://a.b/*.js'') \<noteq> createMatcher_spec ''http://a.b/*.js''"
  by (simp add: stripScheme_def toLowerCase_def toLowerChar_def jsonStringifySlice_def
      jsonEscapeChar_def backslash_def createMatcher_spec_def regexEscape_def regexMeta_def)

section \<open>The cache rule's response hook\<close>

text \<open>
  C8. The specification says the response hook does nothing when no key was recorded for
  \<open>seq\<close>. The hook destructures the table entry before it tests it, so with no entry it
  throws a TypeError: here for \<open>seq = 7\<close> on a table without entries.
\<close>

theorem cache_response_hook_without_key_throws:
  "CacheRule_onResponse 1700000000000 demo_world 7
     (Some (Incoming \<lparr>statusCode = Some 200, statusMessage = Some ''OK'', headersR = Some [],
                      body = None\<rparr> ''abc''))
   = Inl TypeError"
  by (simp add: CacheRule_onResponse_def demo_world_def)

section \<open>The inspector's journal\<close>

text \<open>
  C9. The specification says a burst of journal updates gives one write of
  \<open>index.json\<close>. After the first update \<open>nextSaveTime\<close> holds a delay (4000), which is
  compared with the clock as if it were a time: the branch that clears the pending timer
  is not reached, and every update sets a timer of its own. Three updates within three
  milliseconds, on an inspector made one millisecond before, give three writes, each 4000
  ms after its update.
\<close>

theorem every_update_sets_its_own_flush:
  "flushes (updates 1700000000000 [1700000000001, 1700000000002, 1700000000003])
     = [1700000004001, 1700000004002, 1700000004003]"
  by (simp add: flushes_def updates_def saveEntries_def newInspector_def setTimeout_def
      clearTimeout_def Let_def)

section \<open>Suppressed dispatch\<close>

text \<open>
  C10. Take a request whose URL parses, whose method is not OPTIONS and that a rule with
  a request hook matches. The hook is given the request paused. If it resolves to
  \<open>false\<close>, dispatch writes nothing to the sink, fetches nothing, reports no error, and
  leaves the request as the hook returned it: it is never resumed by the engine.
\<close>

theorem suppress_keeps_request_paused:
  assumes url: "newURL P (url req) (Some (proto @ ''://'' @ hostOf req)) = Some u"
      and rule: "findRule (rules px) req = Inr (Some r)"
      and meth: "reqMethod req \<noteq> ''OPTIONS''"
      and hook: "onRequest r = Some h"
      and res: "h now w (seq px + 1) (pause req) (args r) = Inr (RBool False, req', w')"
  shows "flowing (pause req) = Some False \<and>
         request (begin_dispatch now px w req res (Some r)) = pause req \<and>
         (\<exists>d. forwardRequest P now px w req res proto = Inr d \<and>
              sink d = res \<and> request d = req' \<and> fetched d = None \<and> errors d = [])"
proof -
  let ?d0 = "begin_dispatch now px w req res (Some r)"
  have call: "callOnRequest now (seq px + 1) (Some r) ?d0
                = Inr (RBool False, ?d0\<lparr>request := req', wld := w', handlerCalled := True\<rparr>)"
    using hook res by (simp add: callOnRequest_def begin_dispatch_fields begin_dispatch_request)
  have "forwardRequest P now px w req res proto
          = Inr (?d0\<lparr>request := req', wld := w', handlerCalled := True\<rparr>)"
    using url rule meth call by (simp add: forwardRequest_def Let_def begin_dispatch_fields)
  then show ?thesis
    by (simp add: begin_dispatch_fields begin_dispatch_request pause_def)
qed

text \<open>
  The theorem at work: a custom rule whose hook answers \<open>false\<close> and leaves the request
  alone, on a proxy with an inspector, and \<open>POST http://x/a.js\<close>.
\<close>

theorem suppress_keeps_request_paused_witness:
  "flowing (pause (demo_request ''POST'' ''http://x/a.js'')) = Some False \<and>
   (\<exists>d. forwardRequest demo_platform 1700000000000 demo_custom_proxy demo_world
          (demo_request ''POST'' ''http://x/a.js'') newServerResponse ''http'' = Inr d \<and>
        sink d = newServerResponse \<and> request d = pause (demo_request ''POST'' ''http://x/a.js'') \<and>
        fetched d = None \<and> errors d = [])"
proof -
  let ?R = "demo_request ''POST'' ''http://x/a.js''"
  have url: "newURL demo_platform (url ?R) (Some (''http'' @ ''://'' @ hostOf ?R))
               = Some \<lparr>protocol = ''http:'', host = ''x'', pathname = ''/a.js'', search = []\<rparr>"
    by (simp add: demo_defs hostOf_def)
  have rule: "findRule (rules demo_custom_proxy) ?R = Inr (Some (hd (rules demo_custom_proxy)))"
    by (simp add: demo_custom_proxy_def addCustomRule_def demo_defs)
  have meth: "reqMethod ?R \<noteq> ''OPTIONS''"
    by (simp add: demo_defs)
  have hook: "onRequest (hd (rules demo_custom_proxy)) = Some demo_suppress"
    by (simp add: demo_custom_proxy_def addCustomRule_def demo_defs)
  have res: "demo_suppress 1700000000000 demo_world (seq demo_custom_proxy + 1) (pause ?R)
               (args (hd (rules demo_custom_proxy)))
             = Inr (RBool False, pause ?R, demo_world)"
    by (simp add: demo_suppress_def)
  from suppress_keeps_request_paused[OF url rule meth hook res, of newServerResponse]
  show ?thesis by simp
qed

end
